theory Spec2Isabelle
  imports Main "HOL-Library.Word"
begin

unbundle bit_operations_syntax

section \<open>Python values\<close>

text \<open>
  The handler of \<^verbatim>\<open>src/process_data.py\<close> receives the event as the Python value
  that the JSON payload deserialises to. A Python \<^verbatim>\<open>str\<close> is a sequence of Unicode
  code points, a \<^verbatim>\<open>bytes\<close> object a sequence of octets.
\<close>

type_synonym pystr = "nat list"
type_synonym bytes = "8 word list"

definition py :: "string \<Rightarrow> pystr" where
  \<comment> \<open>a string literal of the source, as its code points\<close>
  "py s = map of_char s"

datatype pyval =
    PNone
  | PBool bool
  | PInt int
  | PFloat "64 word"
  | PStr pystr
  | PList "pyval list"
  | PDict "(pystr \<times> pyval) list"

text \<open>
  Every exception the handler can end with. The three lookup errors come from
  the subscripts of lines 9 and 10; the client errors carry the name of whatever
  the boto3 call raised (\<^verbatim>\<open>NoSuchKey\<close>, \<^verbatim>\<open>AccessDenied\<close>, a parameter validation
  error, a connection error, ...).
\<close>

datatype error =
    KeyError
  | IndexError
  | TypeError
  | GetObjectFailed string
  | BodyReadFailed string
  | UnicodeDecodeError
  | PutItemFailed string

datatype subscript = Key pystr | Index int

definition seq_index :: "'a list \<Rightarrow> int \<Rightarrow> error + 'a" where
  \<comment> \<open>\<^verbatim>\<open>xs[i]\<close> on a sequence: a negative index counts from the end\<close>
  "seq_index xs i =
     (let j = (if i < 0 then i + int (length xs) else i)
      in if j < 0 \<or> int (length xs) \<le> j then Inl IndexError else Inr (xs ! nat j))"

fun getitem :: "pyval \<Rightarrow> subscript \<Rightarrow> error + pyval" where
  "getitem (PDict d) (Key k) = (case map_of d k of None \<Rightarrow> Inl KeyError | Some v \<Rightarrow> Inr v)"
| "getitem (PDict d) (Index i) = Inl KeyError"
| "getitem (PList xs) (Index i) = seq_index xs i"
| "getitem (PList xs) (Key k) = Inl TypeError"
| "getitem (PStr s) (Index i) = map_sum id (\<lambda>c. PStr [c]) (seq_index s i)"
| "getitem (PStr s) (Key k) = Inl TypeError"
| "getitem PNone _ = Inl TypeError"
| "getitem (PBool _) _ = Inl TypeError"
| "getitem (PInt _) _ = Inl TypeError"
| "getitem (PFloat _) _ = Inl TypeError"

fun getpath :: "pyval \<Rightarrow> subscript list \<Rightarrow> error + pyval" where
  \<comment> \<open>a chain of subscripts \<^verbatim>\<open>v[a][b]...\<close>, evaluated left to right\<close>
  "getpath v [] = Inr v"
| "getpath v (s # ss) = (case getitem v s of Inl e \<Rightarrow> Inl e | Inr v' \<Rightarrow> getpath v' ss)"

definition first_record :: "subscript list" where
  "first_record = [Key (py ''Records''), Index 0]"

definition bucket_name_path :: "subscript list" where
  "bucket_name_path = first_record @ [Key (py ''s3''), Key (py ''bucket''), Key (py ''name'')]"

definition object_key_path :: "subscript list" where
  "object_key_path = first_record @ [Key (py ''s3''), Key (py ''object''), Key (py ''key'')]"

section \<open>Decoding and the transform\<close>

definition continuation :: "8 word \<Rightarrow> bool" where
  "continuation b = (0x80 \<le> b \<and> b \<le> 0xBF)"

definition payload :: "8 word \<Rightarrow> 8 word \<Rightarrow> nat" where
  "payload m b = unat (b AND m)"

fun utf8_decode :: "bytes \<Rightarrow> pystr option" where
  \<comment> \<open>\<^verbatim>\<open>bytes.decode('utf-8')\<close>, strict: no overlong form, no surrogate, nothing above U+10FFFF\<close>
  "utf8_decode [] = Some []"
| "utf8_decode (b0 # bs) =
     (if b0 < 0x80 then map_option (Cons (unat b0)) (utf8_decode bs)
      else if 0xC2 \<le> b0 \<and> b0 \<le> 0xDF then
        (case bs of
           b1 # r \<Rightarrow>
             if continuation b1
             then map_option (Cons (payload 0x1F b0 * 64 + payload 0x3F b1)) (utf8_decode r)
             else None
         | _ \<Rightarrow> None)
      else if 0xE0 \<le> b0 \<and> b0 \<le> 0xEF then
        (case bs of
           b1 # b2 # r \<Rightarrow>
             (let cp = payload 0x0F b0 * 4096 + payload 0x3F b1 * 64 + payload 0x3F b2
              in if continuation b1 \<and> continuation b2 \<and> 0x800 \<le> cp
                    \<and> \<not> (0xD800 \<le> cp \<and> cp \<le> 0xDFFF)
                 then map_option (Cons cp) (utf8_decode r) else None)
         | _ \<Rightarrow> None)
      else if 0xF0 \<le> b0 \<and> b0 \<le> 0xF4 then
        (case bs of
           b1 # b2 # b3 # r \<Rightarrow>
             (let cp = payload 0x07 b0 * 262144 + payload 0x3F b1 * 4096
                       + payload 0x3F b2 * 64 + payload 0x3F b3
              in if continuation b1 \<and> continuation b2 \<and> continuation b3
                    \<and> 0x10000 \<le> cp \<and> cp \<le> 0x10FFFF
                 then map_option (Cons cp) (utf8_decode r) else None)
         | _ \<Rightarrow> None)
      else None)"

text \<open>
  \<^verbatim>\<open>str.upper()\<close> maps every character to its full uppercase mapping and
  concatenates the results; it looks at no neighbouring character. On ASCII the mapping
  is \<^verbatim>\<open>a\<close>..\<^verbatim>\<open>z\<close> to \<^verbatim>\<open>A\<close>..\<^verbatim>\<open>Z\<close>. Beyond ASCII it is the table of the Unicode
  database that the interpreter was built with, which is not part of the repository:
  the functions below take it as the parameter \<open>casemap\<close>.
\<close>

definition to_upper :: "(nat \<Rightarrow> pystr) \<Rightarrow> nat \<Rightarrow> pystr" where
  "to_upper casemap c =
     (if c < 128 then [if 97 \<le> c \<and> c \<le> 122 then c - 32 else c] else casemap c)"

definition str_upper :: "(nat \<Rightarrow> pystr) \<Rightarrow> pystr \<Rightarrow> pystr" where
  "str_upper casemap s = concat (map (to_upper casemap) s)"

definition transform :: "(nat \<Rightarrow> pystr) \<Rightarrow> pystr \<Rightarrow> pystr" where
  \<comment> \<open>line 17: \<^verbatim>\<open>processed_data = data.upper()\<close>\<close>
  "transform casemap data = str_upper casemap data"

section \<open>The uppercase table\<close>

text \<open>
  The full uppercase mapping of the Unicode Character Database, version 14.0.0
  (the simple mappings of \<^verbatim>\<open>UnicodeData.txt\<close> and the unconditional ones of
  \<^verbatim>\<open>SpecialCasing.txt\<close>), which is what \<^verbatim>\<open>str.upper()\<close> applies in CPython 3.11,
  for the code points from 128 on; every code point that the table does not list is
  its own uppercase form. An entry \<open>(lo, hi, step, out)\<close> stands for the code points
  \<open>lo\<close>, \<open>lo + step\<close>, ... up to \<open>hi\<close>; the uppercase form of \<open>lo\<close> is \<open>out\<close>, and
  that of \<open>lo + n\<close> is \<open>out\<close> with \<open>n\<close> added to each code point (an entry with several
  code points in \<open>out\<close> has \<open>lo = hi\<close>). The entries are kept in sections of
  consecutive code points.
\<close>

type_synonym case_entry = "nat \<times> nat \<times> nat \<times> pystr"

definition covers :: "nat \<Rightarrow> case_entry \<Rightarrow> bool" where
  "covers c e = (case e of (lo, hi, step, out) \<Rightarrow> lo \<le> c \<and> c \<le> hi \<and> (c - lo) mod step = 0)"

fun find_entry :: "nat \<Rightarrow> case_entry list \<Rightarrow> case_entry option" where
  "find_entry c [] = None"
| "find_entry c (e # es) = (if covers c e then Some e else find_entry c es)"

fun find_section :: "nat \<Rightarrow> ((nat \<times> nat) \<times> case_entry list) list \<Rightarrow> case_entry list" where
  "find_section c [] = []"
| "find_section c (((a, b), es) # rest) = (if a \<le> c \<and> c \<le> b then es else find_section c rest)"

definition upper_00B5 :: "case_entry list" where
  "upper_00B5 =
     [(0x00B5, 0x00B5, 2, [0x039C]), (0x00DF, 0x00DF, 2, [0x0053, 0x0053]),
      (0x00E0, 0x00F6, 1, [0x00C0]), (0x00F8, 0x00FE, 1, [0x00D8]),
      (0x00FF, 0x00FF, 2, [0x0178]), (0x0101, 0x012F, 2, [0x0100]),
      (0x0131, 0x0131, 2, [0x0049]), (0x0133, 0x0137, 2, [0x0132]),
      (0x013A, 0x0148, 2, [0x0139]), (0x0149, 0x0149, 2, [0x02BC, 0x004E]),
      (0x014B, 0x0177, 2, [0x014A]), (0x017A, 0x017E, 2, [0x0179]),
      (0x017F, 0x017F, 2, [0x0053]), (0x0180, 0x0180, 2, [0x0243]),
      (0x0183, 0x0185, 2, [0x0182]), (0x0188, 0x0188, 2, [0x0187]),
      (0x018C, 0x018C, 2, [0x018B]), (0x0192, 0x0192, 2, [0x0191])]"

definition upper_0195 :: "case_entry list" where
  "upper_0195 =
     [(0x0195, 0x0195, 2, [0x01F6]), (0x0199, 0x0199, 2, [0x0198]),
      (0x019A, 0x019A, 2, [0x023D]), (0x019E, 0x019E, 2, [0x0220]),
      (0x01A1, 0x01A5, 2, [0x01A0]), (0x01A8, 0x01A8, 2, [0x01A7]),
      (0x01AD, 0x01AD, 2, [0x01AC]), (0x01B0, 0x01B0, 2, [0x01AF]),
      (0x01B4, 0x01B6, 2, [0x01B3]), (0x01B9, 0x01B9, 2, [0x01B8]),
      (0x01BD, 0x01BD, 2, [0x01BC]), (0x01BF, 0x01BF, 2, [0x01F7]),
      (0x01C5, 0x01C5, 2, [0x01C4]), (0x01C6, 0x01C6, 2, [0x01C4]),
      (0x01C8, 0x01C8, 2, [0x01C7]), (0x01C9, 0x01C9, 2, [0x01C7]),
      (0x01CB, 0x01CB, 2, [0x01CA]), (0x01CC, 0x01CC, 2, [0x01CA])]"

definition upper_01CE :: "case_entry list" where
  "upper_01CE =
     [(0x01CE, 0x01DC, 2, [0x01CD]), (0x01DD, 0x01DD, 2, [0x018E]),
      (0x01DF, 0x01EF, 2, [0x01DE]), (0x01F0, 0x01F0, 2, [0x004A, 0x030C]),
      (0x01F2, 0x01F2, 2, [0x01F1]), (0x01F3, 0x01F3, 2, [0x01F1]),
      (0x01F5, 0x01F5, 2, [0x01F4]), (0x01F9, 0x021F, 2, [0x01F8]),
      (0x0223, 0x0233, 2, [0x0222]), (0x023C, 0x023C, 2, [0x023B]),
      (0x023F, 0x0240, 1, [0x2C7E]), (0x0242, 0x0242, 2, [0x0241]),
      (0x0247, 0x024F, 2, [0x0246]), (0x0250, 0x0250, 2, [0x2C6F]),
      (0x0251, 0x0251, 2, [0x2C6D]), (0x0252, 0x0252, 2, [0x2C70]),
      (0x0253, 0x0253, 2, [0x0181]), (0x0254, 0x0254, 2, [0x0186])]"

definition upper_0256 :: "case_entry list" where
  "upper_0256 =
     [(0x0256, 0x0257, 1, [0x0189]), (0x0259, 0x0259, 2, [0x018F]),
      (0x025B, 0x025B, 2, [0x0190]), (0x025C, 0x025C, 2, [0xA7AB]),
      (0x0260, 0x0260, 2, [0x0193]), (0x0261, 0x0261, 2, [0xA7AC]),
      (0x0263, 0x0263, 2, [0x0194]), (0x0265, 0x0265, 2, [0xA78D]),
      (0x0266, 0x0266, 2, [0xA7AA]), (0x0268, 0x0268, 2, [0x0197]),
      (0x0269, 0x0269, 2, [0x0196]), (0x026A, 0x026A, 2, [0xA7AE]),
      (0x026B, 0x026B, 2, [0x2C62]), (0x026C, 0x026C, 2, [0xA7AD]),
      (0x026F, 0x026F, 2, [0x019C]), (0x0271, 0x0271, 2, [0x2C6E]),
      (0x0272, 0x0272, 2, [0x019D]), (0x0275, 0x0275, 2, [0x019F])]"

definition upper_027D :: "case_entry list" where
  "upper_027D =
     [(0x027D, 0x027D, 2, [0x2C64]), (0x0280, 0x0280, 2, [0x01A6]),
      (0x0282, 0x0282, 2, [0xA7C5]), (0x0283, 0x0283, 2, [0x01A9]),
      (0x0287, 0x0287, 2, [0xA7B1]), (0x0288, 0x0288, 2, [0x01AE]),
      (0x0289, 0x0289, 2, [0x0244]), (0x028A, 0x028B, 1, [0x01B1]),
      (0x028C, 0x028C, 2, [0x0245]), (0x0292, 0x0292, 2, [0x01B7]),
      (0x029D, 0x029D, 2, [0xA7B2]), (0x029E, 0x029E, 2, [0xA7B0]),
      (0x0345, 0x0345, 2, [0x0399]), (0x0371, 0x0373, 2, [0x0370]),
      (0x0377, 0x0377, 2, [0x0376]), (0x037B, 0x037D, 1, [0x03FD]),
      (0x0390, 0x0390, 2, [0x0399, 0x0308, 0x0301]), (0x03AC, 0x03AC, 2, [0x0386])]"

definition upper_03AD :: "case_entry list" where
  "upper_03AD =
     [(0x03AD, 0x03AF, 1, [0x0388]), (0x03B0, 0x03B0, 2, [0x03A5, 0x0308, 0x0301]),
      (0x03B1, 0x03C1, 1, [0x0391]), (0x03C2, 0x03C2, 2, [0x03A3]),
      (0x03C3, 0x03CB, 1, [0x03A3]), (0x03CC, 0x03CC, 2, [0x038C]),
      (0x03CD, 0x03CE, 1, [0x038E]), (0x03D0, 0x03D0, 2, [0x0392]),
      (0x03D1, 0x03D1, 2, [0x0398]), (0x03D5, 0x03D5, 2, [0x03A6]),
      (0x03D6, 0x03D6, 2, [0x03A0]), (0x03D7, 0x03D7, 2, [0x03CF]),
      (0x03D9, 0x03EF, 2, [0x03D8]), (0x03F0, 0x03F0, 2, [0x039A]),
      (0x03F1, 0x03F1, 2, [0x03A1]), (0x03F2, 0x03F2, 2, [0x03F9]),
      (0x03F3, 0x03F3, 2, [0x037F]), (0x03F5, 0x03F5, 2, [0x0395])]"

definition upper_03F8 :: "case_entry list" where
  "upper_03F8 =
     [(0x03F8, 0x03F8, 2, [0x03F7]), (0x03FB, 0x03FB, 2, [0x03FA]),
      (0x0430, 0x044F, 1, [0x0410]), (0x0450, 0x045F, 1, [0x0400]),
      (0x0461, 0x0481, 2, [0x0460]), (0x048B, 0x04BF, 2, [0x048A]),
      (0x04C2, 0x04CE, 2, [0x04C1]), (0x04CF, 0x04CF, 2, [0x04C0]),
      (0x04D1, 0x052F, 2, [0x04D0]), (0x0561, 0x0586, 1, [0x0531]),
      (0x0587, 0x0587, 2, [0x0535, 0x0552]), (0x10D0, 0x10FA, 1, [0x1C90]),
      (0x10FD, 0x10FF, 1, [0x1CBD]), (0x13F8, 0x13FD, 1, [0x13F0]),
      (0x1C80, 0x1C80, 2, [0x0412]), (0x1C81, 0x1C81, 2, [0x0414]),
      (0x1C82, 0x1C82, 2, [0x041E]), (0x1C83, 0x1C84, 1, [0x0421])]"

definition upper_1C85 :: "case_entry list" where
  "upper_1C85 =
     [(0x1C85, 0x1C85, 2, [0x0422]), (0x1C86, 0x1C86, 2, [0x042A]),
      (0x1C87, 0x1C87, 2, [0x0462]), (0x1C88, 0x1C88, 2, [0xA64A]),
      (0x1D79, 0x1D79, 2, [0xA77D]), (0x1D7D, 0x1D7D, 2, [0x2C63]),
      (0x1D8E, 0x1D8E, 2, [0xA7C6]), (0x1E01, 0x1E95, 2, [0x1E00]),
      (0x1E96, 0x1E96, 2, [0x0048, 0x0331]), (0x1E97, 0x1E97, 2, [0x0054, 0x0308]),
      (0x1E98, 0x1E98, 2, [0x0057, 0x030A]), (0x1E99, 0x1E99, 2, [0x0059, 0x030A]),
      (0x1E9A, 0x1E9A, 2, [0x0041, 0x02BE]), (0x1E9B, 0x1E9B, 2, [0x1E60]),
      (0x1EA1, 0x1EFF, 2, [0x1EA0]), (0x1F00, 0x1F07, 1, [0x1F08]),
      (0x1F10, 0x1F15, 1, [0x1F18]), (0x1F20, 0x1F27, 1, [0x1F28])]"

definition upper_1F30 :: "case_entry list" where
  "upper_1F30 =
     [(0x1F30, 0x1F37, 1, [0x1F38]), (0x1F40, 0x1F45, 1, [0x1F48]),
      (0x1F50, 0x1F50, 2, [0x03A5, 0x0313]), (0x1F51, 0x1F57, 2, [0x1F59]),
      (0x1F52, 0x1F52, 2, [0x03A5, 0x0313, 0x0300]),
      (0x1F54, 0x1F54, 2, [0x03A5, 0x0313, 0x0301]),
      (0x1F56, 0x1F56, 2, [0x03A5, 0x0313, 0x0342]), (0x1F60, 0x1F67, 1, [0x1F68]),
      (0x1F70, 0x1F71, 1, [0x1FBA]), (0x1F72, 0x1F75, 1, [0x1FC8]),
      (0x1F76, 0x1F77, 1, [0x1FDA]), (0x1F78, 0x1F79, 1, [0x1FF8]),
      (0x1F7A, 0x1F7B, 1, [0x1FEA]), (0x1F7C, 0x1F7D, 1, [0x1FFA]),
      (0x1F80, 0x1F80, 2, [0x1F08, 0x0399]), (0x1F81, 0x1F81, 2, [0x1F09, 0x0399]),
      (0x1F82, 0x1F82, 2, [0x1F0A, 0x0399]), (0x1F83, 0x1F83, 2, [0x1F0B, 0x0399])]"

definition upper_1F84 :: "case_entry list" where
  "upper_1F84 =
     [(0x1F84, 0x1F84, 2, [0x1F0C, 0x0399]), (0x1F85, 0x1F85, 2, [0x1F0D, 0x0399]),
      (0x1F86, 0x1F86, 2, [0x1F0E, 0x0399]), (0x1F87, 0x1F87, 2, [0x1F0F, 0x0399]),
      (0x1F88, 0x1F88, 2, [0x1F08, 0x0399]), (0x1F89, 0x1F89, 2, [0x1F09, 0x0399]),
      (0x1F8A, 0x1F8A, 2, [0x1F0A, 0x0399]), (0x1F8B, 0x1F8B, 2, [0x1F0B, 0x0399]),
      (0x1F8C, 0x1F8C, 2, [0x1F0C, 0x0399]), (0x1F8D, 0x1F8D, 2, [0x1F0D, 0x0399]),
      (0x1F8E, 0x1F8E, 2, [0x1F0E, 0x0399]), (0x1F8F, 0x1F8F, 2, [0x1F0F, 0x0399]),
      (0x1F90, 0x1F90, 2, [0x1F28, 0x0399]), (0x1F91, 0x1F91, 2, [0x1F29, 0x0399]),
      (0x1F92, 0x1F92, 2, [0x1F2A, 0x0399]), (0x1F93, 0x1F93, 2, [0x1F2B, 0x0399]),
      (0x1F94, 0x1F94, 2, [0x1F2C, 0x0399]), (0x1F95, 0x1F95, 2, [0x1F2D, 0x0399])]"

definition upper_1F96 :: "case_entry list" where
  "upper_1F96 =
     [(0x1F96, 0x1F96, 2, [0x1F2E, 0x0399]), (0x1F97, 0x1F97, 2, [0x1F2F, 0x0399]),
      (0x1F98, 0x1F98, 2, [0x1F28, 0x0399]), (0x1F99, 0x1F99, 2, [0x1F29, 0x0399]),
      (0x1F9A, 0x1F9A, 2, [0x1F2A, 0x0399]), (0x1F9B, 0x1F9B, 2, [0x1F2B, 0x0399]),
      (0x1F9C, 0x1F9C, 2, [0x1F2C, 0x0399]), (0x1F9D, 0x1F9D, 2, [0x1F2D, 0x0399]),
      (0x1F9E, 0x1F9E, 2, [0x1F2E, 0x0399]), (0x1F9F, 0x1F9F, 2, [0x1F2F, 0x0399]),
      (0x1FA0, 0x1FA0, 2, [0x1F68, 0x0399]), (0x1FA1, 0x1FA1, 2, [0x1F69, 0x0399]),
      (0x1FA2, 0x1FA2, 2, [0x1F6A, 0x0399]), (0x1FA3, 0x1FA3, 2, [0x1F6B, 0x0399]),
      (0x1FA4, 0x1FA4, 2, [0x1F6C, 0x0399]), (0x1FA5, 0x1FA5, 2, [0x1F6D, 0x0399]),
      (0x1FA6, 0x1FA6, 2, [0x1F6E, 0x0399]), (0x1FA7, 0x1FA7, 2, [0x1F6F, 0x0399])]"

definition upper_1FA8 :: "case_entry list" where
  "upper_1FA8 =
     [(0x1FA8, 0x1FA8, 2, [0x1F68, 0x0399]), (0x1FA9, 0x1FA9, 2, [0x1F69, 0x0399]),
      (0x1FAA, 0x1FAA, 2, [0x1F6A, 0x0399]), (0x1FAB, 0x1FAB, 2, [0x1F6B, 0x0399]),
      (0x1FAC, 0x1FAC, 2, [0x1F6C, 0x0399]), (0x1FAD, 0x1FAD, 2, [0x1F6D, 0x0399]),
      (0x1FAE, 0x1FAE, 2, [0x1F6E, 0x0399]), (0x1FAF, 0x1FAF, 2, [0x1F6F, 0x0399]),
      (0x1FB0, 0x1FB1, 1, [0x1FB8]), (0x1FB2, 0x1FB2, 2, [0x1FBA, 0x0399]),
      (0x1FB3, 0x1FB3, 2, [0x0391, 0x0399]), (0x1FB4, 0x1FB4, 2, [0x0386, 0x0399]),
      (0x1FB6, 0x1FB6, 2, [0x0391, 0x0342]), (0x1FB7, 0x1FB7, 2, [0x0391, 0x0342, 0x0399]),
      (0x1FBC, 0x1FBC, 2, [0x0391, 0x0399]), (0x1FBE, 0x1FBE, 2, [0x0399]),
      (0x1FC2, 0x1FC2, 2, [0x1FCA, 0x0399]), (0x1FC3, 0x1FC3, 2, [0x0397, 0x0399])]"

definition upper_1FC4 :: "case_entry list" where
  "upper_1FC4 =
     [(0x1FC4, 0x1FC4, 2, [0x0389, 0x0399]), (0x1FC6, 0x1FC6, 2, [0x0397, 0x0342]),
      (0x1FC7, 0x1FC7, 2, [0x0397, 0x0342, 0x0399]), (0x1FCC, 0x1FCC, 2, [0x0397, 0x0399]),
      (0x1FD0, 0x1FD1, 1, [0x1FD8]), (0x1FD2, 0x1FD2, 2, [0x0399, 0x0308, 0x0300]),
      (0x1FD3, 0x1FD3, 2, [0x0399, 0x0308, 0x0301]), (0x1FD6, 0x1FD6, 2, [0x0399, 0x0342]),
      (0x1FD7, 0x1FD7, 2, [0x0399, 0x0308, 0x0342]), (0x1FE0, 0x1FE1, 1, [0x1FE8]),
      (0x1FE2, 0x1FE2, 2, [0x03A5, 0x0308, 0x0300]),
      (0x1FE3, 0x1FE3, 2, [0x03A5, 0x0308, 0x0301]), (0x1FE4, 0x1FE4, 2, [0x03A1, 0x0313]),
      (0x1FE5, 0x1FE5, 2, [0x1FEC]), (0x1FE6, 0x1FE6, 2, [0x03A5, 0x0342]),
      (0x1FE7, 0x1FE7, 2, [0x03A5, 0x0308, 0x0342]), (0x1FF2, 0x1FF2, 2, [0x1FFA, 0x0399]),
      (0x1FF3, 0x1FF3, 2, [0x03A9, 0x0399])]"

definition upper_1FF4 :: "case_entry list" where
  "upper_1FF4 =
     [(0x1FF4, 0x1FF4, 2, [0x038F, 0x0399]), (0x1FF6, 0x1FF6, 2, [0x03A9, 0x0342]),
      (0x1FF7, 0x1FF7, 2, [0x03A9, 0x0342, 0x0399]), (0x1FFC, 0x1FFC, 2, [0x03A9, 0x0399]),
      (0x214E, 0x214E, 2, [0x2132]), (0x2170, 0x217F, 1, [0x2160]),
      (0x2184, 0x2184, 2, [0x2183]), (0x24D0, 0x24E9, 1, [0x24B6]),
      (0x2C30, 0x2C5F, 1, [0x2C00]), (0x2C61, 0x2C61, 2, [0x2C60]),
      (0x2C65, 0x2C65, 2, [0x023A]), (0x2C66, 0x2C66, 2, [0x023E]),
      (0x2C68, 0x2C6C, 2, [0x2C67]), (0x2C73, 0x2C73, 2, [0x2C72]),
      (0x2C76, 0x2C76, 2, [0x2C75]), (0x2C81, 0x2CE3, 2, [0x2C80]),
      (0x2CEC, 0x2CEE, 2, [0x2CEB]), (0x2CF3, 0x2CF3, 2, [0x2CF2])]"

definition upper_2D00 :: "case_entry list" where
  "upper_2D00 =
     [(0x2D00, 0x2D25, 1, [0x10A0]), (0x2D27, 0x2D27, 2, [0x10C7]),
      (0x2D2D, 0x2D2D, 2, [0x10CD]), (0xA641, 0xA66D, 2, [0xA640]),
      (0xA681, 0xA69B, 2, [0xA680]), (0xA723, 0xA72F, 2, [0xA722]),
      (0xA733, 0xA76F, 2, [0xA732]), (0xA77A, 0xA77C, 2, [0xA779]),
      (0xA77F, 0xA787, 2, [0xA77E]), (0xA78C, 0xA78C, 2, [0xA78B]),
      (0xA791, 0xA793, 2, [0xA790]), (0xA794, 0xA794, 2, [0xA7C4]),
      (0xA797, 0xA7A9, 2, [0xA796]), (0xA7B5, 0xA7C3, 2, [0xA7B4]),
      (0xA7C8, 0xA7CA, 2, [0xA7C7]), (0xA7D1, 0xA7D1, 2, [0xA7D0]),
      (0xA7D7, 0xA7D9, 2, [0xA7D6]), (0xA7F6, 0xA7F6, 2, [0xA7F5])]"

definition upper_AB53 :: "case_entry list" where
  "upper_AB53 =
     [(0xAB53, 0xAB53, 2, [0xA7B3]), (0xAB70, 0xABBF, 1, [0x13A0]),
      (0xFB00, 0xFB00, 2, [0x0046, 0x0046]), (0xFB01, 0xFB01, 2, [0x0046, 0x0049]),
      (0xFB02, 0xFB02, 2, [0x0046, 0x004C]), (0xFB03, 0xFB03, 2, [0x0046, 0x0046, 0x0049]),
      (0xFB04, 0xFB04, 2, [0x0046, 0x0046, 0x004C]), (0xFB05, 0xFB05, 2, [0x0053, 0x0054]),
      (0xFB06, 0xFB06, 2, [0x0053, 0x0054]), (0xFB13, 0xFB13, 2, [0x0544, 0x0546]),
      (0xFB14, 0xFB14, 2, [0x0544, 0x0535]), (0xFB15, 0xFB15, 2, [0x0544, 0x053B]),
      (0xFB16, 0xFB16, 2, [0x054E, 0x0546]), (0xFB17, 0xFB17, 2, [0x0544, 0x053D]),
      (0xFF41, 0xFF5A, 1, [0xFF21]), (0x10428, 0x1044F, 1, [0x10400]),
      (0x104D8, 0x104FB, 1, [0x104B0]), (0x10597, 0x105BB, 2, [0x10570]),
      (0x10598, 0x105A0, 2, [0x10571]), (0x105A4, 0x105B0, 2, [0x1057D]),
      (0x105B4, 0x105B8, 2, [0x1058D])]"

definition upper_105BC :: "case_entry list" where
  "upper_105BC =
     [(0x105BC, 0x105BC, 2, [0x10595]), (0x10CC0, 0x10CF2, 1, [0x10C80]),
      (0x118C0, 0x118DF, 1, [0x118A0]), (0x16E60, 0x16E7F, 1, [0x16E40]),
      (0x1E922, 0x1E943, 1, [0x1E900])]"

definition upper_sections :: "((nat \<times> nat) \<times> case_entry list) list" where
  \<comment> \<open>the sections in order, each with the range of code points that its entries lie in\<close>
  "upper_sections =
     [((0x00B5, 0x0192), upper_00B5), ((0x0195, 0x01CC), upper_0195),
      ((0x01CE, 0x0254), upper_01CE), ((0x0256, 0x0275), upper_0256),
      ((0x027D, 0x03AC), upper_027D), ((0x03AD, 0x03F5), upper_03AD),
      ((0x03F8, 0x1C84), upper_03F8), ((0x1C85, 0x1F27), upper_1C85),
      ((0x1F30, 0x1F83), upper_1F30), ((0x1F84, 0x1F95), upper_1F84),
      ((0x1F96, 0x1FA7), upper_1F96), ((0x1FA8, 0x1FC3), upper_1FA8),
      ((0x1FC4, 0x1FF3), upper_1FC4), ((0x1FF4, 0x2CF3), upper_1FF4),
      ((0x2D00, 0xA7F6), upper_2D00), ((0xAB53, 0x105BB), upper_AB53),
      ((0x105BC, 0x1E943), upper_105BC)]"

definition unicode_upper :: "nat \<Rightarrow> pystr" where
  "unicode_upper c =
     (case find_entry c (find_section c upper_sections) of
        None \<Rightarrow> [c]
      | Some (lo, hi, step, out) \<Rightarrow> map (\<lambda>u. u + (c - lo)) out)"

section \<open>Serialising the message\<close>

definition hex_digit :: "nat \<Rightarrow> nat" where
  "hex_digit d = (if d < 10 then 48 + d else 87 + d)"

definition u_escape :: "nat \<Rightarrow> pystr" where
  \<comment> \<open>backslash, \<^verbatim>\<open>u\<close> and four lowercase hexadecimal digits\<close>
  "u_escape n =
     [92, 117, hex_digit (n div 4096 mod 16), hex_digit (n div 256 mod 16),
      hex_digit (n div 16 mod 16), hex_digit (n mod 16)]"

definition escape_char :: "nat \<Rightarrow> pystr" where
  "escape_char c =
     (if c = 34 then [92, 34]
      else if c = 92 then [92, 92]
      else if c = 10 then [92, 110]
      else if c = 13 then [92, 114]
      else if c = 9 then [92, 116]
      else if c = 8 then [92, 98]
      else if c = 12 then [92, 102]
      else if 32 \<le> c \<and> c \<le> 126 then [c]
      else if c < 0x10000 then u_escape c
      else u_escape (0xD800 + (c - 0x10000) div 1024 mod 1024)
           @ u_escape (0xDC00 + (c - 0x10000) mod 1024))"

definition json_dumps_str :: "pystr \<Rightarrow> pystr" where
  \<comment> \<open>\<^verbatim>\<open>json.dumps\<close> of a \<^verbatim>\<open>str\<close> with the default \<^verbatim>\<open>ensure_ascii=True\<close>\<close>
  "json_dumps_str s = [34] @ concat (map escape_char s) @ [34]"

section \<open>The two services\<close>

datatype s3_reply = GetObjectRaises string | BodyReadRaises string | BodyBytes bytes

datatype api_call = GetObject pyval pyval | PutItem pystr pyval

text \<open>
  The world outside the handler: what object storage answers to a \<^verbatim>\<open>get_object\<close>
  for a bucket and a key, whether the key-value service refuses a \<^verbatim>\<open>put_item\<close>
  (a missing table, permissions, throttling, a size limit), the rows of every table,
  and the calls made to the two clients so far, oldest first.
\<close>

record world =
  s3_get_object :: "pyval \<Rightarrow> pyval \<Rightarrow> s3_reply"
  put_item_fault :: "pystr \<Rightarrow> pyval \<Rightarrow> string option"
  tables :: "pystr \<Rightarrow> pyval list"
  calls :: "api_call list"

definition get_object :: "world \<Rightarrow> pyval \<Rightarrow> pyval \<Rightarrow> (error + bytes) \<times> world" where
  \<comment> \<open>lines 13 and 14: \<^verbatim>\<open>s3.get_object(Bucket=..., Key=...)\<close>, then \<^verbatim>\<open>response['Body'].read()\<close>\<close>
  "get_object w bucket key =
     (let w' = w\<lparr>calls := calls w @ [GetObject bucket key]\<rparr>
      in case s3_get_object w bucket key of
           GetObjectRaises c \<Rightarrow> (Inl (GetObjectFailed c), w')
         | BodyReadRaises c \<Rightarrow> (Inl (BodyReadFailed c), w')
         | BodyBytes raw \<Rightarrow> (Inr raw, w'))"

definition attr_id :: "pyval \<Rightarrow> pyval option" where
  "attr_id item = (case item of PDict kvs \<Rightarrow> map_of kvs (py ''id'') | _ \<Rightarrow> None)"

text \<open>
  Modelled from the spec: the table definition and the service behind \<^verbatim>\<open>put_item\<close>
  are not among the source files. The spec's table is keyed by \<^verbatim>\<open>id\<close>, and a write
  with an \<^verbatim>\<open>id\<close> that is already stored replaces that record (last write wins, no
  versioning); a write that fails leaves the table as it was. A record without the key
  attribute cannot be stored in a keyed table and is refused.
\<close>

definition put_item :: "world \<Rightarrow> pystr \<Rightarrow> pyval \<Rightarrow> (error + unit) \<times> world" where
  "put_item w table_name item =
     (let w' = w\<lparr>calls := calls w @ [PutItem table_name item]\<rparr>
      in case put_item_fault w table_name item of
           Some c \<Rightarrow> (Inl (PutItemFailed c), w')
         | None \<Rightarrow>
             if attr_id item = None then (Inl (PutItemFailed ''ValidationException''), w')
             else (Inr (),
                   w'\<lparr>tables := (tables w)
                      (table_name :=
                         filter (\<lambda>r. attr_id r \<noteq> attr_id item) (tables w table_name)
                         @ [item])\<rparr>))"

section \<open>The handler\<close>

definition make_item :: "pyval \<Rightarrow> pystr \<Rightarrow> pyval" where
  \<comment> \<open>lines 20 to 23\<close>
  "make_item object_key processed_data =
     PDict [(py ''id'', PDict [(py ''S'', object_key)]),
            (py ''data'', PDict [(py ''S'', PStr processed_data)])]"

definition success_result :: pyval where
  \<comment> \<open>lines 27 to 30\<close>
  "success_result =
     PDict [(py ''statusCode'', PInt 200),
            (py ''body'', PStr (json_dumps_str (py ''Data processed successfully!'')))]"

definition lambda_handler ::
  "(nat \<Rightarrow> pystr) \<Rightarrow> world \<Rightarrow> pyval \<Rightarrow> 'ctx \<Rightarrow> (error + pyval) \<times> world" where
  "lambda_handler casemap w event context =
     (case getpath event bucket_name_path of
        Inl e \<Rightarrow> (Inl e, w)
      | Inr bucket_name \<Rightarrow>
     (case getpath event object_key_path of
        Inl e \<Rightarrow> (Inl e, w)
      | Inr object_key \<Rightarrow>
     (case get_object w bucket_name object_key of
        (Inl e, w1) \<Rightarrow> (Inl e, w1)
      | (Inr raw, w1) \<Rightarrow>
     (case utf8_decode raw of
        None \<Rightarrow> (Inl UnicodeDecodeError, w1)
      | Some data \<Rightarrow>
     (let processed_data = transform casemap data;
          item = make_item object_key processed_data
      in case put_item w1 (py ''processed-data'') item of
           (Inl e, w2) \<Rightarrow> (Inl e, w2)
         | (Inr _, w2) \<Rightarrow> (Inr success_result, w2))))))"

section \<open>The vocabulary of the specification\<close>

text \<open>
  The specification names four kinds of failure; each exception of the handler falls
  under one of them.
\<close>

datatype failure = MalformedInput | StorageReadError | DecodeError | StorageWriteError

fun failure_of :: "error \<Rightarrow> failure" where
  "failure_of KeyError = MalformedInput"
| "failure_of IndexError = MalformedInput"
| "failure_of TypeError = MalformedInput"
| "failure_of (GetObjectFailed _) = StorageReadError"
| "failure_of (BodyReadFailed _) = StorageReadError"
| "failure_of UnicodeDecodeError = DecodeError"
| "failure_of (PutItemFailed _) = StorageWriteError"

text \<open>
  The specification's \<^verbatim>\<open>uppercase\<close>: the text with every character replaced, in
  order, by its uppercase form. It is written without the arithmetic of \<open>to_upper\<close>:
  a letter of the basic alphabet becomes the capital at the same position of the
  alphabet, every other ASCII character stays, and a character beyond ASCII becomes
  what the case table gives.
\<close>

definition letter_pairs :: "(nat \<times> nat) list" where
  "letter_pairs = zip (py ''abcdefghijklmnopqrstuvwxyz'') (py ''ABCDEFGHIJKLMNOPQRSTUVWXYZ'')"

definition upper_char :: "(nat \<Rightarrow> pystr) \<Rightarrow> nat \<Rightarrow> pystr" where
  "upper_char casemap c =
     (case map_of letter_pairs c of
        Some capital \<Rightarrow> [capital]
      | None \<Rightarrow> if c < 128 then [c] else casemap c)"

primrec uppercase :: "(nat \<Rightarrow> pystr) \<Rightarrow> pystr \<Rightarrow> pystr" where
  "uppercase casemap [] = []"
| "uppercase casemap (c # cs) = upper_char casemap c @ uppercase casemap cs"

text \<open>
  A case table is closed when the characters it produces are themselves uppercase,
  that is, mapped to themselves. (The table of the Unicode database is.)
\<close>

definition upper_closed :: "(nat \<Rightarrow> pystr) \<Rightarrow> bool" where
  "upper_closed casemap = (\<forall>c\<ge>128. \<forall>d\<in>set (casemap c). to_upper casemap d = [d])"

definition scalar :: "nat \<Rightarrow> bool" where
  \<comment> \<open>a Unicode scalar value: at most U+10FFFF and no surrogate\<close>
  "scalar c = (c \<le> 0x10FFFF \<and> \<not> (0xD800 \<le> c \<and> c \<le> 0xDFFF))"

fun is_read :: "api_call \<Rightarrow> bool" where
  "is_read (GetObject _ _) = True"
| "is_read (PutItem _ _) = False"

fun is_write :: "api_call \<Rightarrow> bool" where
  "is_write (GetObject _ _) = False"
| "is_write (PutItem _ _) = True"

definition id_unique :: "pyval list \<Rightarrow> bool" where
  \<comment> \<open>no two records of a table carry the same \<^verbatim>\<open>id\<close>\<close>
  "id_unique rows = distinct (map attr_id rows)"

definition records_with_id :: "pyval \<Rightarrow> pyval list \<Rightarrow> pyval list" where
  "records_with_id k rows = filter (\<lambda>r. attr_id r = Some (PDict [(py ''S'', k)])) rows"

section \<open>Checking the uppercase table\<close>

text \<open>
  The uppercase forms that an entry produces are the code points \<open>out + n\<close>: again a
  progression. Such a progression is \<open>clear\<close> when no entry of the table, and no
  lowercase ASCII letter, lies in it: every section is either apart from it as a whole
  or holds only entries that are separate from it, by their ranges or by the
  remainder of their code points.
\<close>

definition ascii_lower :: "case_entry list" where
  "ascii_lower = [(97, 122, 1, [65])]"

definition all_sections :: "((nat \<times> nat) \<times> case_entry list) list" where
  "all_sections = ((97, 122), ascii_lower) # upper_sections"

definition domain :: "case_entry \<Rightarrow> nat \<times> nat \<times> nat" where
  "domain e = (case e of (lo, hi, step, out) \<Rightarrow> (lo, hi, step))"

definition within :: "nat \<times> nat \<Rightarrow> case_entry \<Rightarrow> bool" where
  "within r e = (case r of (a, b) \<Rightarrow> case e of (lo, hi, step, out) \<Rightarrow> a \<le> lo \<and> hi \<le> b)"

definition apart :: "nat \<times> nat \<times> nat \<Rightarrow> nat \<times> nat \<Rightarrow> bool" where
  "apart img r = (case img of (lo, hi, step) \<Rightarrow> case r of (a, b) \<Rightarrow> hi < a \<or> b < lo)"

definition separate :: "nat \<times> nat \<times> nat \<Rightarrow> nat \<times> nat \<times> nat \<Rightarrow> bool" where
  "separate p q =
     (case p of (lo, hi, step) \<Rightarrow> case q of (lo', hi', step') \<Rightarrow>
        hi < lo' \<or> hi' < lo \<or> (step = step' \<and> lo mod step \<noteq> lo' mod step))"

definition clear :: "nat \<times> nat \<times> nat \<Rightarrow> bool" where
  "clear img =
     list_all (\<lambda>(r, es). if apart img r then True else list_all (\<lambda>e. separate img (domain e)) es)
       all_sections"

definition entry_clear :: "case_entry \<Rightarrow> bool" where
  "entry_clear e =
     (case e of (lo, hi, step, out) \<Rightarrow> list_all (\<lambda>u. clear (u, u + (hi - lo), step)) out)"

section \<open>Example inputs\<close>

definition s3_record :: "pystr \<Rightarrow> pystr \<Rightarrow> pyval" where
  \<comment> \<open>one record of the trigger input, for an object of a bucket\<close>
  "s3_record bucket key =
     PDict [(py ''s3'',
             PDict [(py ''bucket'', PDict [(py ''name'', PStr bucket)]),
                    (py ''object'', PDict [(py ''key'', PStr key)])])]"

definition notes_event :: pyval where
  "notes_event = PDict [(py ''Records'', PList [s3_record (py ''my-bucket'') (py ''notes.txt'')])]"

definition batch_event :: pyval where
  \<comment> \<open>the same first record, followed by a second one\<close>
  "batch_event =
     PDict [(py ''Records'',
             PList [s3_record (py ''my-bucket'') (py ''notes.txt''),
                    s3_record (py ''my-bucket'') (py ''other.txt'')])]"

definition gone_event :: pyval where
  \<comment> \<open>names an object that the bucket does not hold\<close>
  "gone_event = PDict [(py ''Records'', PList [s3_record (py ''my-bucket'') (py ''gone.txt'')])]"

definition keyless_event :: pyval where
  \<comment> \<open>the object of the record has no \<^verbatim>\<open>key\<close>\<close>
  "keyless_event =
     PDict [(py ''Records'',
             PList [PDict [(py ''s3'',
                            PDict [(py ''bucket'', PDict [(py ''name'', PStr (py ''my-bucket''))]),
                                   (py ''object'', PDict [])])]])]"

definition latin_casemap :: "nat \<Rightarrow> pystr" where
  \<comment> \<open>a fragment of the Unicode table: sharp s to \<^verbatim>\<open>SS\<close>, e acute to its capital\<close>
  "latin_casemap c = (if c = 223 then [83, 83] else if c = 233 then [201] else [c])"

definition hello_bytes :: bytes where
  \<comment> \<open>\<^verbatim>\<open>b'hello world'\<close>\<close>
  "hello_bytes = [0x68, 0x65, 0x6C, 0x6C, 0x6F, 0x20, 0x77, 0x6F, 0x72, 0x6C, 0x64]"

definition notes_world :: world where
  \<comment> \<open>one object, \<^verbatim>\<open>notes.txt\<close> in \<^verbatim>\<open>my-bucket\<close>; an empty table; no call made yet\<close>
  "notes_world =
     \<lparr> s3_get_object =
         (\<lambda>bucket key.
            if bucket = PStr (py ''my-bucket'') \<and> key = PStr (py ''notes.txt'')
            then BodyBytes hello_bytes else GetObjectRaises ''NoSuchKey''),
       put_item_fault = (\<lambda>table_name item. None),
       tables = (\<lambda>table_name. []),
       calls = [] \<rparr>"

definition latin1_bytes :: bytes where
  \<comment> \<open>\<^verbatim>\<open>b'caf\xe9'\<close>: text in Latin-1, not in UTF-8\<close>
  "latin1_bytes = [0x63, 0x61, 0x66, 0xE9]"

definition latin1_world :: world where
  \<comment> \<open>the object holds the Latin-1 text\<close>
  "latin1_world =
     notes_world\<lparr>s3_get_object := (\<lambda>bucket key. BodyBytes latin1_bytes)\<rparr>"

definition shout_bytes :: bytes where
  \<comment> \<open>\<^verbatim>\<open>b'bye'\<close>\<close>
  "shout_bytes = [0x62, 0x79, 0x65]"

definition throttled_world :: world where
  \<comment> \<open>the same world with a key-value service that refuses every write\<close>
  "throttled_world =
     notes_world\<lparr>put_item_fault :=
       (\<lambda>table_name item. Some ''ProvisionedThroughputExceededException'')\<rparr>"

definition after_first :: world where
  \<comment> \<open>the world that the handler leaves after the first notification\<close>
  "after_first = snd (lambda_handler latin_casemap notes_world notes_event ())"

definition rewritten :: world where
  \<comment> \<open>then the object is rewritten to hold \<^verbatim>\<open>b'bye'\<close>\<close>
  "rewritten =
     after_first\<lparr>s3_get_object := (\<lambda>bucket key. BodyBytes shout_bytes),
                  put_item_fault := (\<lambda>table_name item. None)\<rparr>"

definition after_second :: world where
  \<comment> \<open>and a second notification for the same key is handled\<close>
  "after_second = snd (lambda_handler latin_casemap rewritten batch_event ())"

definition rewritten_refusing :: world where
  \<comment> \<open>the object is rewritten as before, but the key-value service refuses every write\<close>
  "rewritten_refusing =
     rewritten\<lparr>put_item_fault :=
       (\<lambda>table_name item. Some ''ProvisionedThroughputExceededException'')\<rparr>"

section \<open>Decoding\<close>

lemma ascii_decodes: "\<forall>b\<in>set bs. b < 0x80 \<Longrightarrow> utf8_decode bs = Some (map unat bs)"
  by (induction bs) simp_all

lemma utf8_decode_examples:
  "utf8_decode [0xC3, 0xA9] = Some [0xE9]"
  "utf8_decode [0xE2, 0x82, 0xAC] = Some [0x20AC]"
  "utf8_decode [0xF0, 0x9F, 0x98, 0x80] = Some [0x1F600]"
  "utf8_decode [0xC0, 0x80] = None"
  "utf8_decode [0xE0, 0x80, 0x80] = None"
  "utf8_decode [0xED, 0xA0, 0x80] = None"
  "utf8_decode [0xF4, 0x90, 0x80, 0x80] = None"
  "utf8_decode [0xE2, 0x82] = None"
  "utf8_decode [0x80] = None"
  by (simp_all add: continuation_def payload_def)

lemma payload_le: "payload m b \<le> unat m"
  unfolding payload_def by (rule word_and_le1 [THEN word_le_nat_alt [THEN iffD1]])

lemma utf8_decode_scalar: "utf8_decode bs = Some s \<Longrightarrow> \<forall>c\<in>set s. scalar c"
proof (induction bs arbitrary: s rule: utf8_decode.induct)
  case 1
  then show ?case by simp
next
  case (2 b0 bs)
  have p1: "payload 0x1F b0 \<le> 31" and p2: "\<And>b. payload 0x3F b \<le> 63"
    using payload_le [of "0x1F" b0] payload_le [of "0x3F"] by simp_all
  show ?case
  proof (cases "b0 < 0x80")
    case True
    then have "unat b0 < 128" by (simp add: word_less_nat_alt)
    moreover from "2.prems" True obtain t where "utf8_decode bs = Some t" and "s = unat b0 # t"
      by auto
    moreover from this "2.IH"(1) [OF True] have "\<forall>c\<in>set t. scalar c" by simp
    ultimately show ?thesis by (simp add: scalar_def)
  next
    case nb: False
    show ?thesis
    proof (cases "0xC2 \<le> b0 \<and> b0 \<le> 0xDF")
      case True
      with "2.prems" nb obtain b1 r where bs: "bs = b1 # r"
        by (cases bs) simp_all
      with "2.prems" nb True have c: "continuation b1"
        by (simp split: if_splits)
      with "2.prems" nb True bs obtain t where t: "utf8_decode r = Some t"
        and s: "s = (payload 0x1F b0 * 64 + payload 0x3F b1) # t"
        by auto
      from "2.IH"(2) [OF nb True bs c t] have "\<forall>c\<in>set t. scalar c" .
      moreover have "payload 0x1F b0 * 64 + payload 0x3F b1 \<le> 2047"
        using p1 p2 [of b1] by linarith
      ultimately show ?thesis by (simp add: s scalar_def)
    next
      case n2: False
      show ?thesis
      proof (cases "0xE0 \<le> b0 \<and> b0 \<le> 0xEF")
        case True
        define cp where "cp = payload 0x0F b0 * 4096 + payload 0x3F (hd bs) * 64
                               + payload 0x3F (hd (tl bs))"
        from "2.prems" nb n2 True obtain b1 b2 r where bs: "bs = b1 # b2 # r"
          by (cases bs; cases "tl bs") auto
        have cp: "cp = payload 0x0F b0 * 4096 + payload 0x3F b1 * 64 + payload 0x3F b2"
          by (simp add: cp_def bs)
        from "2.prems" nb n2 True bs cp have ok: "continuation b1 \<and> continuation b2
            \<and> 0x800 \<le> cp \<and> \<not> (0xD800 \<le> cp \<and> cp \<le> 0xDFFF)"
          by (simp add: Let_def split: if_splits)
        with "2.prems" nb n2 True bs cp obtain t where t: "utf8_decode r = Some t"
          and s: "s = cp # t"
          by (auto simp: Let_def)
        from "2.IH"(3) [OF nb n2 True bs refl cp ok t] have "\<forall>c\<in>set t. scalar c" .
        moreover have "cp \<le> 65535"
          using payload_le [of "0x0F" b0] p2 [of b1] p2 [of b2] unfolding cp by simp
        ultimately show ?thesis using ok by (simp add: s scalar_def)
      next
        case n3: False
        show ?thesis
        proof (cases "0xF0 \<le> b0 \<and> b0 \<le> 0xF4")
          case True
          from "2.prems" nb n2 n3 True obtain b1 b2 b3 r where bs: "bs = b1 # b2 # b3 # r"
            by (cases bs; cases "tl bs"; cases "tl (tl bs)") auto
          define cp where "cp = payload 0x07 b0 * 262144 + payload 0x3F b1 * 4096
                       + payload 0x3F b2 * 64 + payload 0x3F b3"
          from "2.prems" nb n2 n3 True bs have ok: "continuation b1 \<and> continuation b2
              \<and> continuation b3 \<and> 0x10000 \<le> cp \<and> cp \<le> 0x10FFFF"
            by (simp add: Let_def cp_def split: if_splits)
          with "2.prems" nb n2 n3 True bs obtain t where t: "utf8_decode r = Some t"
            and s: "s = cp # t"
            by (auto simp: Let_def cp_def)
          from "2.IH"(4) [OF nb n2 n3 True bs refl refl cp_def ok t]
          have "\<forall>c\<in>set t. scalar c" .
          then show ?thesis using ok by (simp add: s scalar_def)
        next
          case False
          with "2.prems" nb n2 n3 show ?thesis by simp
        qed
      qed
    qed
  qed
qed

section \<open>Uppercasing\<close>

lemma letter_lookup:
  "map_of letter_pairs c = (if 97 \<le> c \<and> c \<le> 122 then Some (c - 32) else None)"
proof (cases "97 \<le> c \<and> c \<le> 122")
  case True
  then have "c \<in> {97..122}" by simp
  also have "{97..122} = set [97..<123::nat]" by (simp only: set_upt) auto
  finally have "c \<in> set [97..<123]" .
  then have "map_of letter_pairs c = Some (c - 32)"
    unfolding letter_pairs_def py_def by (simp add: upt_rec) (elim disjE, simp_all)
  with True show ?thesis by simp
next
  case False
  then show ?thesis by (auto simp: letter_pairs_def py_def)
qed

lemma upper_char_to_upper [simp]: "upper_char U c = to_upper U c"
  by (simp add: upper_char_def to_upper_def letter_lookup)

lemma str_upper_uppercase: "str_upper U s = uppercase U s"
  by (induction s) (simp_all add: str_upper_def)

lemma uppercase_append: "uppercase U (xs @ ys) = uppercase U xs @ uppercase U ys"
  by (induction xs) simp_all

lemma uppercase_fixed: "\<forall>d\<in>set xs. to_upper U d = [d] \<Longrightarrow> uppercase U xs = xs"
  by (induction xs) simp_all

lemma ascii_upper_fixed: "d < 128 \<Longrightarrow> \<not> (97 \<le> d \<and> d \<le> 122) \<Longrightarrow> to_upper U d = [d]"
  unfolding to_upper_def by (simp only: if_True if_False)

lemma to_upper_closed:
  assumes "upper_closed U" and "d \<in> set (to_upper U c)"
  shows "to_upper U d = [d]"
proof (cases "c < 128")
  case True
  show ?thesis
  proof (cases "97 \<le> c \<and> c \<le> 122")
    case lower: True
    with \<open>c < 128\<close> assms(2) have "d = c - 32" by (simp add: to_upper_def)
    with lower have "d < 128" and "\<not> (97 \<le> d \<and> d \<le> 122)" by linarith+
    then show ?thesis by (rule ascii_upper_fixed)
  next
    case other: False
    with \<open>c < 128\<close> assms(2) have "d = c" by (simp add: to_upper_def)
    with \<open>c < 128\<close> other show ?thesis by (simp add: ascii_upper_fixed)
  qed
next
  case False
  then have "128 \<le> c" and "to_upper U c = U c" by (simp_all add: to_upper_def)
  with assms(1) have "\<forall>d\<in>set (to_upper U c). to_upper U d = [d]"
    by (simp add: upper_closed_def)
  then show ?thesis using assms(2) by (rule bspec)
qed

lemma uppercase_idem:
  assumes "upper_closed U"
  shows "uppercase U (uppercase U s) = uppercase U s"
proof (induction s)
  case Nil
  show ?case by simp
next
  case (Cons c cs)
  have "\<forall>d\<in>set (to_upper U c). to_upper U d = [d]"
  proof
    fix d
    assume "d \<in> set (to_upper U c)"
    with assms show "to_upper U d = [d]" by (rule to_upper_closed)
  qed
  then have "uppercase U (to_upper U c) = to_upper U c" by (rule uppercase_fixed)
  with Cons show ?case by (simp add: uppercase_append)
qed

section \<open>The uppercase table is closed\<close>

lemma find_entry_Some: "find_entry c es = Some e \<Longrightarrow> e \<in> set es \<and> covers c e"
  by (induction es) (auto split: if_splits)

lemma find_entry_uncovered: "\<forall>e\<in>set es. \<not> covers c e \<Longrightarrow> find_entry c es = None"
  by (induction es) simp_all

lemma find_section_cases:
  "find_section c secs = [] \<or> (\<exists>r. (r, find_section c secs) \<in> set secs)"
  by (induction c secs rule: find_section.induct) auto

lemma separate_disjoint:
  assumes "separate (lo, hi, step) (lo', hi', step')"
    and "lo \<le> d" "d \<le> hi" "(d - lo) mod step = 0"
    and "lo' \<le> d" "d \<le> hi'" "(d - lo') mod step' = 0"
  shows False
proof -
  from assms(1,2,3,5,6) have same: "step = step'" and differ: "lo mod step \<noteq> lo' mod step"
    by (auto simp: separate_def)
  from assms(2,4) have "d mod step = lo mod step"
    by (metis add.right_neutral le_add_diff_inverse mod_add_left_eq mod_add_right_eq)
  moreover from assms(5,7) same have "d mod step = lo' mod step"
    by (metis add.right_neutral le_add_diff_inverse mod_add_left_eq mod_add_right_eq)
  ultimately show False using differ by simp
qed

lemma clear_separates:
  assumes "list_all (within r) es" and "clear img" and "(r, es) \<in> set all_sections"
    and "e \<in> set es"
  shows "separate img (domain e)"
proof (cases "apart img r")
  case True
  moreover from assms(1,4) have "within r e" by (simp add: list_all_iff)
  ultimately show ?thesis
    by (auto simp: apart_def within_def separate_def domain_def split: prod.splits)
next
  case False
  with assms(2,3) have "list_all (\<lambda>e. separate img (domain e)) es"
    by (auto simp: clear_def list_all_iff)
  with assms(4) show ?thesis by (simp add: list_all_iff)
qed

lemma uncovered_fixed:
  assumes "\<And>r es e. (r, es) \<in> set all_sections \<Longrightarrow> e \<in> set es \<Longrightarrow> \<not> covers d e"
  shows "to_upper unicode_upper d = [d]"
proof (cases "d < 128")
  case True
  have "\<not> covers d (97, 122, 1, [65])"
    by (rule assms [of "(97, 122)" ascii_lower]) (simp_all add: all_sections_def ascii_lower_def)
  then have "\<not> (97 \<le> d \<and> d \<le> 122)" by (simp add: covers_def)
  with True show ?thesis by (rule ascii_upper_fixed)
next
  case False
  have "find_entry d (find_section d upper_sections) = None"
  proof (rule find_entry_uncovered, rule ballI)
    fix e
    assume e: "e \<in> set (find_section d upper_sections)"
    with find_section_cases [of d upper_sections]
    obtain r where "(r, find_section d upper_sections) \<in> set upper_sections" by auto
    then have "(r, find_section d upper_sections) \<in> set all_sections"
      by (simp add: all_sections_def)
    then show "\<not> covers d e" using e by (rule assms)
  qed
  with False show ?thesis by (simp add: to_upper_def unicode_upper_def)
qed

lemma table_closed:
  assumes W: "\<And>r es. (r, es) \<in> set all_sections \<Longrightarrow> list_all (within r) es"
    and C: "\<And>r es. (r, es) \<in> set upper_sections \<Longrightarrow> list_all entry_clear es"
  shows "upper_closed unicode_upper"
  unfolding upper_closed_def
proof (intro allI impI ballI)
  fix c d :: nat
  assume c: "128 \<le> c" and d: "d \<in> set (unicode_upper c)"
  show "to_upper unicode_upper d = [d]"
  proof (cases "find_entry c (find_section c upper_sections)")
    case None
    with d have "d = c" and "unicode_upper c = [c]" by (simp_all add: unicode_upper_def)
    with c show ?thesis by (simp add: to_upper_def)
  next
    case (Some e)
    obtain lo hi step out where e: "e = (lo, hi, step, out)" by (cases e)
    from find_entry_Some [OF Some] have mem: "e \<in> set (find_section c upper_sections)"
      and cov: "covers c e" by simp_all
    from mem find_section_cases [of c upper_sections]
    obtain r where "(r, find_section c upper_sections) \<in> set upper_sections" by auto
    from C [OF this] mem have "entry_clear e" by (simp add: list_all_iff)
    moreover from d Some e obtain u where u: "u \<in> set out" and du: "d = u + (c - lo)"
      by (auto simp: unicode_upper_def)
    ultimately have clr: "clear (u, u + (hi - lo), step)"
      by (simp add: entry_clear_def e list_all_iff)
    from cov e have b: "lo \<le> c" "c \<le> hi" "(c - lo) mod step = 0" by (simp_all add: covers_def)
    show ?thesis
    proof (rule uncovered_fixed)
      fix r' es' e'
      assume sec: "(r', es') \<in> set all_sections" and e': "e' \<in> set es'"
      obtain lo' hi' step' out' where e'': "e' = (lo', hi', step', out')" by (cases e')
      from clear_separates [OF W [OF sec] clr sec e']
      have sep: "separate (u, u + (hi - lo), step) (lo', hi', step')"
        by (simp add: domain_def e'')
      show "\<not> covers d e'"
      proof
        assume "covers d e'"
        then have "lo' \<le> d" "d \<le> hi'" "(d - lo') mod step' = 0"
          by (simp_all add: covers_def e'')
        moreover from b have "u \<le> d" "d \<le> u + (hi - lo)" "(d - u) mod step = 0"
          by (simp_all add: du)
        ultimately show False using sep by (intro separate_disjoint [of u "u + (hi - lo)" step lo' hi' step' d])
      qed
    qed
  qed
qed

lemma clear_unrolled:
  "clear img \<longleftrightarrow>
     (if apart img (0x0061, 0x007A) then True else list_all (\<lambda>e. separate img (domain e)) ascii_lower)
     \<and> (if apart img (0x00B5, 0x0192) then True else list_all (\<lambda>e. separate img (domain e)) upper_00B5)
     \<and> (if apart img (0x0195, 0x01CC) then True else list_all (\<lambda>e. separate img (domain e)) upper_0195)
     \<and> (if apart img (0x01CE, 0x0254) then True else list_all (\<lambda>e. separate img (domain e)) upper_01CE)
     \<and> (if apart img (0x0256, 0x0275) then True else list_all (\<lambda>e. separate img (domain e)) upper_0256)
     \<and> (if apart img (0x027D, 0x03AC) then True else list_all (\<lambda>e. separate img (domain e)) upper_027D)
     \<and> (if apart img (0x03AD, 0x03F5) then True else list_all (\<lambda>e. separate img (domain e)) upper_03AD)
     \<and> (if apart img (0x03F8, 0x1C84) then True else list_all (\<lambda>e. separate img (domain e)) upper_03F8)
     \<and> (if apart img (0x1C85, 0x1F27) then True else list_all (\<lambda>e. separate img (domain e)) upper_1C85)
     \<and> (if apart img (0x1F30, 0x1F83) then True else list_all (\<lambda>e. separate img (domain e)) upper_1F30)
     \<and> (if apart img (0x1F84, 0x1F95) then True else list_all (\<lambda>e. separate img (domain e)) upper_1F84)
     \<and> (if apart img (0x1F96, 0x1FA7) then True else list_all (\<lambda>e. separate img (domain e)) upper_1F96)
     \<and> (if apart img (0x1FA8, 0x1FC3) then True else list_all (\<lambda>e. separate img (domain e)) upper_1FA8)
     \<and> (if apart img (0x1FC4, 0x1FF3) then True else list_all (\<lambda>e. separate img (domain e)) upper_1FC4)
     \<and> (if apart img (0x1FF4, 0x2CF3) then True else list_all (\<lambda>e. separate img (domain e)) upper_1FF4)
     \<and> (if apart img (0x2D00, 0xA7F6) then True else list_all (\<lambda>e. separate img (domain e)) upper_2D00)
     \<and> (if apart img (0xAB53, 0x105BB) then True else list_all (\<lambda>e. separate img (domain e)) upper_AB53)
     \<and> (if apart img (0x105BC, 0x1E943) then True else list_all (\<lambda>e. separate img (domain e)) upper_105BC)"
  by (simp add: clear_def all_sections_def upper_sections_def)

lemma sections_within:
  "list_all (within (0x0061, 0x007A)) ascii_lower"
  "list_all (within (0x00B5, 0x0192)) upper_00B5"
  "list_all (within (0x0195, 0x01CC)) upper_0195"
  "list_all (within (0x01CE, 0x0254)) upper_01CE"
  "list_all (within (0x0256, 0x0275)) upper_0256"
  "list_all (within (0x027D, 0x03AC)) upper_027D"
  "list_all (within (0x03AD, 0x03F5)) upper_03AD"
  "list_all (within (0x03F8, 0x1C84)) upper_03F8"
  "list_all (within (0x1C85, 0x1F27)) upper_1C85"
  "list_all (within (0x1F30, 0x1F83)) upper_1F30"
  "list_all (within (0x1F84, 0x1F95)) upper_1F84"
  "list_all (within (0x1F96, 0x1FA7)) upper_1F96"
  "list_all (within (0x1FA8, 0x1FC3)) upper_1FA8"
  "list_all (within (0x1FC4, 0x1FF3)) upper_1FC4"
  "list_all (within (0x1FF4, 0x2CF3)) upper_1FF4"
  "list_all (within (0x2D00, 0xA7F6)) upper_2D00"
  "list_all (within (0xAB53, 0x105BB)) upper_AB53"
  "list_all (within (0x105BC, 0x1E943)) upper_105BC"
  by (simp_all add: within_def ascii_lower_def upper_00B5_def upper_0195_def upper_01CE_def upper_0256_def upper_027D_def upper_03AD_def upper_03F8_def upper_1C85_def upper_1F30_def upper_1F84_def upper_1F96_def upper_1FA8_def upper_1FC4_def upper_1FF4_def upper_2D00_def upper_AB53_def upper_105BC_def)

lemma sections_clear:
  "list_all entry_clear upper_00B5"
  "list_all entry_clear upper_0195"
  "list_all entry_clear upper_01CE"
  "list_all entry_clear upper_0256"
  "list_all entry_clear upper_027D"
  "list_all entry_clear upper_03AD"
  "list_all entry_clear upper_03F8"
  "list_all entry_clear upper_1C85"
  "list_all entry_clear upper_1F30"
  "list_all entry_clear upper_1F84"
  "list_all entry_clear upper_1F96"
  "list_all entry_clear upper_1FA8"
  "list_all entry_clear upper_1FC4"
  "list_all entry_clear upper_1FF4"
  "list_all entry_clear upper_2D00"
  "list_all entry_clear upper_AB53"
  "list_all entry_clear upper_105BC"
  by (simp_all add: entry_clear_def clear_unrolled apart_def separate_def domain_def ascii_lower_def
        upper_00B5_def upper_0195_def upper_01CE_def upper_0256_def upper_027D_def upper_03AD_def upper_03F8_def upper_1C85_def upper_1F30_def upper_1F84_def upper_1F96_def upper_1FA8_def upper_1FC4_def upper_1FF4_def upper_2D00_def upper_AB53_def upper_105BC_def)

lemma unicode_upper_closed: "upper_closed unicode_upper"
proof (rule table_closed)
  fix r es
  assume "(r, es) \<in> set all_sections"
  then show "list_all (within r) es"
    by (auto simp: all_sections_def upper_sections_def sections_within)
next
  fix r es
  assume "(r, es) \<in> set upper_sections"
  then show "list_all entry_clear es"
    by (auto simp: upper_sections_def sections_clear)
qed

lemma upper_examples: "transform unicode_upper
       [0x0073, 0x0074, 0x0072, 0x0061, 0x00DF, 0x0065, 0x0020, 0x00FF, 0x01C6, 0xFB01, 0x1F80,
        0x00B5, 0x0149, 0x4E2D]
     = [0x0053, 0x0054, 0x0052, 0x0041, 0x0053, 0x0053, 0x0045, 0x0020, 0x0178, 0x01C4, 0x0046,
        0x0049, 0x1F08, 0x0399, 0x039C, 0x02BC, 0x004E, 0x4E2D]"
  by (simp add: transform_def str_upper_def to_upper_def unicode_upper_def upper_sections_def
        covers_def upper_00B5_def upper_0195_def upper_01CE_def upper_0256_def upper_027D_def
        upper_03AD_def upper_03F8_def upper_1C85_def upper_1F30_def upper_1F84_def upper_1F96_def
        upper_1FA8_def upper_1FC4_def upper_1FF4_def upper_2D00_def upper_AB53_def
        upper_105BC_def)

section \<open>Lookups and the branches of the handler\<close>

lemma py_eq_iff [simp]: "py s = py t \<longleftrightarrow> s = t"
  by (simp add: py_def inj_map_eq_map inj_on_def)

lemma getpath_append:
  "getpath v (p @ q) = (case getpath v p of Inl e \<Rightarrow> Inl e | Inr v' \<Rightarrow> getpath v' q)"
  by (induction p arbitrary: v) (auto split: sum.splits)

lemma seq_index_error: "seq_index xs i = Inl e \<Longrightarrow> e = IndexError"
  by (auto simp: seq_index_def Let_def split: if_splits)

lemma getitem_error: "getitem v s = Inl e \<Longrightarrow> failure_of e = MalformedInput"
  by (cases "(v, s)" rule: getitem.cases)
     (auto split: option.splits dest: seq_index_error simp: map_sum_def split: sum.splits)

lemma getpath_error: "getpath v p = Inl e \<Longrightarrow> failure_of e = MalformedInput"
  by (induction p arbitrary: v) (auto split: sum.splits dest: getitem_error)

lemma attr_id_make_item [simp]: "attr_id (make_item k d) = Some (PDict [(py ''S'', k)])"
  by (simp add: attr_id_def make_item_def)

lemma handler_unresolved:
  "getpath event bucket_name_path = Inl e \<Longrightarrow> lambda_handler U w event ctx = (Inl e, w)"
  "getpath event bucket_name_path = Inr b \<Longrightarrow> getpath event object_key_path = Inl e
     \<Longrightarrow> lambda_handler U w event ctx = (Inl e, w)"
  by (simp_all add: lambda_handler_def)

lemma handler_resolved:
  assumes "getpath event bucket_name_path = Inr b" and "getpath event object_key_path = Inr k"
  shows "lambda_handler U w event ctx =
     (case s3_get_object w b k of
        GetObjectRaises c \<Rightarrow> (Inl (GetObjectFailed c), w\<lparr>calls := calls w @ [GetObject b k]\<rparr>)
      | BodyReadRaises c \<Rightarrow> (Inl (BodyReadFailed c), w\<lparr>calls := calls w @ [GetObject b k]\<rparr>)
      | BodyBytes raw \<Rightarrow>
          (case utf8_decode raw of
             None \<Rightarrow> (Inl UnicodeDecodeError, w\<lparr>calls := calls w @ [GetObject b k]\<rparr>)
           | Some s \<Rightarrow>
               (case put_item_fault w (py ''processed-data'') (make_item k (str_upper U s)) of
                  Some c \<Rightarrow>
                    (Inl (PutItemFailed c),
                     w\<lparr>calls := calls w @ [GetObject b k,
                          PutItem (py ''processed-data'') (make_item k (str_upper U s))]\<rparr>)
                | None \<Rightarrow>
                    (Inr success_result,
                     w\<lparr>calls := calls w @ [GetObject b k,
                          PutItem (py ''processed-data'') (make_item k (str_upper U s))],
                       tables := (tables w)
                         (py ''processed-data'' :=
                            filter (\<lambda>r. attr_id r \<noteq> Some (PDict [(py ''S'', k)]))
                              (tables w (py ''processed-data''))
                            @ [make_item k (str_upper U s)])\<rparr>))))"
  using assms
  by (simp add: lambda_handler_def get_object_def put_item_def transform_def Let_def
           split: s3_reply.splits option.splits)

lemma handler_success_inv:
  assumes "lambda_handler U w event ctx = (Inr r, w')"
  shows "\<exists>b k raw s.
           getpath event bucket_name_path = Inr b \<and> getpath event object_key_path = Inr k
         \<and> s3_get_object w b k = BodyBytes raw \<and> utf8_decode raw = Some s
         \<and> put_item_fault w (py ''processed-data'') (make_item k (str_upper U s)) = None
         \<and> r = success_result
         \<and> w' = w\<lparr>calls := calls w @ [GetObject b k,
                      PutItem (py ''processed-data'') (make_item k (str_upper U s))],
                   tables := (tables w)
                     (py ''processed-data'' :=
                        filter (\<lambda>r. attr_id r \<noteq> Some (PDict [(py ''S'', k)]))
                          (tables w (py ''processed-data''))
                        @ [make_item k (str_upper U s)])\<rparr>"
proof (cases "getpath event bucket_name_path")
  case (Inl e)
  with assms show ?thesis by (simp add: handler_unresolved(1))
next
  case b: (Inr b)
  show ?thesis
  proof (cases "getpath event object_key_path")
    case (Inl e)
    with assms b show ?thesis by (simp add: handler_unresolved(2))
  next
    case k: (Inr k)
    from assms show ?thesis
      unfolding handler_resolved [OF b k]
      by (auto simp: b k split: s3_reply.splits option.splits)
  qed
qed

lemma handler_failure_tables:
  assumes "lambda_handler U w event ctx = (Inl e, w')"
  shows "tables w' = tables w"
proof (cases "getpath event bucket_name_path")
  case (Inl e')
  with assms show ?thesis by (auto simp: handler_unresolved(1))
next
  case b: (Inr b)
  show ?thesis
  proof (cases "getpath event object_key_path")
    case (Inl e')
    with assms b show ?thesis by (auto simp: handler_unresolved(2))
  next
    case k: (Inr k)
    from assms show ?thesis
      unfolding handler_resolved [OF b k]
      by (auto split: s3_reply.splits option.splits)
  qed
qed

lemma handler_success_records:
  assumes "lambda_handler U w event ctx = (Inr r, w')"
    and "getpath event bucket_name_path = Inr b"
    and "getpath event object_key_path = Inr k"
    and "s3_get_object w b k = BodyBytes raw"
    and "utf8_decode raw = Some s"
  shows "records_with_id k (tables w' (py ''processed-data'')) = [make_item k (uppercase U s)]"
  using assms(1,4,5) unfolding handler_resolved [OF assms(2,3)]
  by (auto simp: records_with_id_def str_upper_uppercase split: option.splits)

lemma put_keeps_id_unique:
  assumes "id_unique rows"
  shows "id_unique (filter (\<lambda>r. attr_id r \<noteq> attr_id item) rows @ [item])"
  using assms by (auto simp: id_unique_def distinct_map_filter)

lemma handler_keeps_id_unique:
  assumes "id_unique (tables w t)" and "lambda_handler U w event ctx = (res, w')"
  shows "id_unique (tables w' t)"
proof (cases res)
  case (Inl e)
  with assms(2) handler_failure_tables [of U w event ctx e w'] have "tables w' = tables w"
    by simp
  with assms(1) show ?thesis by simp
next
  case (Inr r)
  with assms(2) have "lambda_handler U w event ctx = (Inr r, w')" by simp
  from handler_success_inv [OF this] obtain k d where
    "tables w' = (tables w)(py ''processed-data'' :=
        filter (\<lambda>r. attr_id r \<noteq> attr_id (make_item k d)) (tables w (py ''processed-data''))
        @ [make_item k d])"
    by auto
  with assms(1) show ?thesis by (auto simp del: attr_id_make_item intro: put_keeps_id_unique)
qed

section \<open>The example run\<close>

lemma latin_casemap_closed: "upper_closed latin_casemap"
  unfolding upper_closed_def
proof (intro allI impI ballI)
  fix c d :: nat
  assume c: "128 \<le> c" and d: "d \<in> set (latin_casemap c)"
  from d consider "d = 83" | "d = 201" | "d = c" "c \<noteq> 223" "c \<noteq> 233"
    by (auto simp: latin_casemap_def split: if_splits)
  then show "to_upper latin_casemap d = [d]"
  proof cases
    case 1 then show ?thesis by (simp add: to_upper_def)
  next
    case 2 then show ?thesis by (simp add: to_upper_def latin_casemap_def)
  next
    case 3 with c show ?thesis by (simp add: to_upper_def latin_casemap_def)
  qed
qed

lemma notes_event_bucket:
  "getpath notes_event bucket_name_path = Inr (PStr (py ''my-bucket''))"
  by (simp add: notes_event_def s3_record_def bucket_name_path_def first_record_def
        seq_index_def)

lemma notes_event_key:
  "getpath notes_event object_key_path = Inr (PStr (py ''notes.txt''))"
  by (simp add: notes_event_def s3_record_def object_key_path_def first_record_def
        seq_index_def)

lemma decode_hello: "utf8_decode hello_bytes = Some (py ''hello world'')"
  by (simp add: hello_bytes_def py_def)

lemma upper_hello: "uppercase U (py ''hello world'') = py ''HELLO WORLD''"
  by (simp add: py_def to_upper_def)

lemma dumps_message:
  "json_dumps_str (py ''Data processed successfully!'')
     = py (CHR 0x22 # ''Data processed successfully!'' @ [CHR 0x22])"
  by (simp add: json_dumps_str_def escape_char_def py_def)

lemma missing_records_raises:
  "map_of d (py ''Records'') = None \<Longrightarrow> getpath (PDict d) bucket_name_path = Inl KeyError"
  by (simp add: bucket_name_path_def first_record_def)

lemma empty_records_raises:
  "getpath (PDict [(py ''Records'', PList [])]) bucket_name_path = Inl IndexError"
  by (simp add: bucket_name_path_def first_record_def seq_index_def)

lemma upper_shout: "uppercase U (py ''bye'') = py ''BYE''"
  by (simp add: py_def to_upper_def)

lemma decode_shout: "utf8_decode shout_bytes = Some (py ''bye'')"
  by (simp add: shout_bytes_def py_def)

lemma decode_latin1: "utf8_decode latin1_bytes = None"
  by (simp add: latin1_bytes_def)

lemma gone_event_paths:
  "getpath gone_event bucket_name_path = Inr (PStr (py ''my-bucket''))"
  "getpath gone_event object_key_path = Inr (PStr (py ''gone.txt''))"
  by (simp_all add: gone_event_def s3_record_def bucket_name_path_def object_key_path_def
        first_record_def seq_index_def)

lemma keyless_event_paths:
  "getpath keyless_event bucket_name_path = Inr (PStr (py ''my-bucket''))"
  "getpath keyless_event object_key_path = Inl KeyError"
  by (simp_all add: keyless_event_def bucket_name_path_def object_key_path_def
        first_record_def seq_index_def)

lemma batch_event_first:
  "getpath notes_event first_record = getpath batch_event first_record"
  by (simp add: notes_event_def batch_event_def first_record_def seq_index_def)

lemma batch_event_paths:
  "getpath batch_event bucket_name_path = Inr (PStr (py ''my-bucket''))"
  "getpath batch_event object_key_path = Inr (PStr (py ''notes.txt''))"
  using notes_event_bucket notes_event_key
  by (simp_all add: bucket_name_path_def object_key_path_def getpath_append
        batch_event_first [symmetric])

lemma notes_run:
  "lambda_handler latin_casemap notes_world notes_event ctx =
     (Inr success_result,
      notes_world\<lparr>calls := [GetObject (PStr (py ''my-bucket'')) (PStr (py ''notes.txt'')),
                  PutItem (py ''processed-data'')
                    (make_item (PStr (py ''notes.txt'')) (py ''HELLO WORLD''))],
        tables := (\<lambda>table_name. [])
          (py ''processed-data'' := [make_item (PStr (py ''notes.txt'')) (py ''HELLO WORLD'')])\<rparr>)"
  unfolding handler_resolved [OF notes_event_bucket notes_event_key]
  by (simp add: notes_world_def decode_hello str_upper_uppercase upper_hello)

lemma throttled_run:
  "lambda_handler latin_casemap throttled_world notes_event ctx =
     (Inl (PutItemFailed ''ProvisionedThroughputExceededException''),
      throttled_world\<lparr>calls := [GetObject (PStr (py ''my-bucket'')) (PStr (py ''notes.txt'')),
                  PutItem (py ''processed-data'')
                    (make_item (PStr (py ''notes.txt'')) (py ''HELLO WORLD''))]\<rparr>)"
  unfolding handler_resolved [OF notes_event_bucket notes_event_key]
  by (simp add: throttled_world_def notes_world_def decode_hello str_upper_uppercase upper_hello)

lemma first_run:
  "lambda_handler latin_casemap notes_world notes_event () = (Inr success_result, after_first)"
  by (simp add: after_first_def notes_run)

lemma second_run:
  "lambda_handler latin_casemap rewritten batch_event () = (Inr success_result, after_second)"
  unfolding after_second_def handler_resolved [OF batch_event_paths]
  by (simp add: rewritten_def decode_shout)

lemma after_first_records:
  "records_with_id (PStr (py ''notes.txt'')) (tables after_first (py ''processed-data''))
     = [PDict [(py ''id'', PDict [(py ''S'', PStr (py ''notes.txt''))]),
               (py ''data'', PDict [(py ''S'', PStr (py ''HELLO WORLD''))])]]"
  by (simp add: after_first_def notes_run records_with_id_def make_item_def attr_id_def)

lemma refusing_run:
  "lambda_handler latin_casemap rewritten_refusing batch_event () =
     (Inl (PutItemFailed ''ProvisionedThroughputExceededException''),
      rewritten_refusing\<lparr>calls := calls rewritten_refusing
         @ [GetObject (PStr (py ''my-bucket'')) (PStr (py ''notes.txt'')),
            PutItem (py ''processed-data'')
              (make_item (PStr (py ''notes.txt'')) (py ''BYE''))]\<rparr>)"
  unfolding handler_resolved [OF batch_event_paths]
  by (simp add: rewritten_refusing_def rewritten_def decode_shout str_upper_uppercase upper_shout)

section \<open>A valid notification stores the uppercased record\<close>

text \<open>
  C1, as amended: for every notification whose bucket name and object key resolve to
  strings, naming an object that storage returns and whose bytes decode to \<open>s\<close>, an
  invocation whose write the key-value service accepts returns a result with
  \<^verbatim>\<open>statusCode\<close> 200, makes exactly one write call, and leaves in the table
  \<^verbatim>\<open>processed-data\<close> exactly one record with that object key as \<^verbatim>\<open>id\<close>: the
  record whose \<^verbatim>\<open>id\<close> is the object key and whose \<^verbatim>\<open>data\<close> is \<open>uppercase s\<close>.
  Without the acceptance of the write the statement fails: in \<open>throttled_world\<close> the
  same notification and object end in the error of \<^verbatim>\<open>put_item\<close>, no result is
  returned and the table stays empty.
\<close>

theorem valid_notification_stores_record:
  assumes "getpath event bucket_name_path = Inr (PStr b)"
    and "getpath event object_key_path = Inr (PStr k)"
    and "s3_get_object w (PStr b) (PStr k) = BodyBytes raw"
    and "utf8_decode raw = Some s"
    and "put_item_fault w (py ''processed-data'') (make_item (PStr k) (uppercase U s)) = None"
  shows "\<exists>r w'. lambda_handler U w event ctx = (Inr r, w')
           \<and> getitem r (Key (py ''statusCode'')) = Inr (PInt 200)
           \<and> filter is_write (calls w')
               = filter is_write (calls w)
                 @ [PutItem (py ''processed-data'') (make_item (PStr k) (uppercase U s))]
           \<and> records_with_id (PStr k) (tables w' (py ''processed-data''))
               = [make_item (PStr k) (uppercase U s)]
           \<and> make_item (PStr k) (uppercase U s)
               = PDict [(py ''id'', PDict [(py ''S'', PStr k)]),
                        (py ''data'', PDict [(py ''S'', PStr (uppercase U s))])]"
  unfolding handler_resolved [OF assms(1,2)]
  using assms(3-5)
  by (simp add: str_upper_uppercase success_result_def records_with_id_def make_item_def
        attr_id_def)

theorem valid_notification_stores_record_witness:
  "getpath notes_event bucket_name_path = Inr (PStr (py ''my-bucket''))
   \<and> getpath notes_event object_key_path = Inr (PStr (py ''notes.txt''))
   \<and> s3_get_object notes_world (PStr (py ''my-bucket'')) (PStr (py ''notes.txt''))
       = BodyBytes hello_bytes
   \<and> utf8_decode hello_bytes = Some (py ''hello world'')
   \<and> put_item_fault notes_world (py ''processed-data'')
        (make_item (PStr (py ''notes.txt'')) (uppercase latin_casemap (py ''hello world''))) = None
   \<and> (\<exists>r w'. lambda_handler latin_casemap notes_world notes_event () = (Inr r, w')
           \<and> getitem r (Key (py ''statusCode'')) = Inr (PInt 200)
           \<and> filter is_write (calls w')
               = filter is_write (calls notes_world)
                 @ [PutItem (py ''processed-data'')
                      (make_item (PStr (py ''notes.txt'')) (py ''HELLO WORLD''))]
           \<and> records_with_id (PStr (py ''notes.txt'')) (tables w' (py ''processed-data''))
               = [make_item (PStr (py ''notes.txt'')) (py ''HELLO WORLD'')]
           \<and> make_item (PStr (py ''notes.txt'')) (py ''HELLO WORLD'')
               = PDict [(py ''id'', PDict [(py ''S'', PStr (py ''notes.txt''))]),
                        (py ''data'', PDict [(py ''S'', PStr (py ''HELLO WORLD''))])])"
proof -
  have h3: "s3_get_object notes_world (PStr (py ''my-bucket'')) (PStr (py ''notes.txt''))
              = BodyBytes hello_bytes"
    by (simp add: notes_world_def)
  have h5: "put_item_fault notes_world (py ''processed-data'')
              (make_item (PStr (py ''notes.txt'')) (uppercase latin_casemap (py ''hello world'')))
            = None"
    by (simp add: notes_world_def)
  from valid_notification_stores_record
         [OF notes_event_bucket notes_event_key h3 decode_hello h5, of "()"]
  show ?thesis
    using notes_event_bucket notes_event_key h3 decode_hello h5
    by (simp only: upper_hello simp_thms)
qed

theorem refused_write_counterexample:
  "getpath notes_event bucket_name_path = Inr (PStr (py ''my-bucket''))
   \<and> getpath notes_event object_key_path = Inr (PStr (py ''notes.txt''))
   \<and> s3_get_object throttled_world (PStr (py ''my-bucket'')) (PStr (py ''notes.txt''))
       = BodyBytes hello_bytes
   \<and> utf8_decode hello_bytes = Some (py ''hello world'')
   \<and> fst (lambda_handler latin_casemap throttled_world notes_event ())
       = Inl (PutItemFailed ''ProvisionedThroughputExceededException'')
   \<and> tables (snd (lambda_handler latin_casemap throttled_world notes_event ()))
        (py ''processed-data'') = []"
  by (simp add: notes_event_bucket notes_event_key decode_hello throttled_run)
     (simp add: throttled_world_def notes_world_def)

section \<open>The transform\<close>

text \<open>
  C2: the transform that line 17 applies to the decoded content is uppercasing,
  \<open>transform s = uppercase s\<close> for every string \<open>s\<close>, and it is idempotent,
  \<open>transform (transform s) = transform s\<close> for every string \<open>s\<close>. The transform is
  taken with the uppercase table of Unicode.
\<close>

theorem transform_uppercase_idempotent:
  "transform unicode_upper s = uppercase unicode_upper s
   \<and> transform unicode_upper (transform unicode_upper s) = transform unicode_upper s"
  using uppercase_idem [OF unicode_upper_closed, of s]
  by (simp add: transform_def str_upper_uppercase)

theorem transform_uppercase_idempotent_witness:
  "transform unicode_upper
       [0x0073, 0x0074, 0x0072, 0x0061, 0x00DF, 0x0065, 0x0020, 0x00FF, 0x01C6, 0xFB01, 0x1F80,
        0x00B5, 0x0149, 0x4E2D]
     = uppercase unicode_upper
       [0x0073, 0x0074, 0x0072, 0x0061, 0x00DF, 0x0065, 0x0020, 0x00FF, 0x01C6, 0xFB01, 0x1F80,
        0x00B5, 0x0149, 0x4E2D]
   \<and> transform unicode_upper
       [0x0073, 0x0074, 0x0072, 0x0061, 0x00DF, 0x0065, 0x0020, 0x00FF, 0x01C6, 0xFB01, 0x1F80,
        0x00B5, 0x0149, 0x4E2D]
     = [0x0053, 0x0054, 0x0052, 0x0041, 0x0053, 0x0053, 0x0045, 0x0020, 0x0178, 0x01C4, 0x0046,
        0x0049, 0x1F08, 0x0399, 0x039C, 0x02BC, 0x004E, 0x4E2D]
   \<and> transform unicode_upper
       (transform unicode_upper
          [0x0073, 0x0074, 0x0072, 0x0061, 0x00DF, 0x0065, 0x0020, 0x00FF, 0x01C6, 0xFB01,
           0x1F80, 0x00B5, 0x0149, 0x4E2D])
     = transform unicode_upper
       [0x0073, 0x0074, 0x0072, 0x0061, 0x00DF, 0x0065, 0x0020, 0x00FF, 0x01C6, 0xFB01, 0x1F80,
        0x00B5, 0x0149, 0x4E2D]"
proof -
  note both = transform_uppercase_idempotent
    [of "[0x0073, 0x0074, 0x0072, 0x0061, 0x00DF, 0x0065, 0x0020, 0x00FF, 0x01C6, 0xFB01, 0x1F80,
          0x00B5, 0x0149, 0x4E2D]"]
  show ?thesis
    by (intro conjI both [THEN conjunct1] both [THEN conjunct2] upper_examples)
qed

section \<open>The result of a successful invocation\<close>

text \<open>
  C3, as amended: the result of every successful invocation has \<^verbatim>\<open>statusCode\<close> 200
  and a \<^verbatim>\<open>body\<close> equal to the JSON serialisation of the message, which is the
  message \<^verbatim>\<open>Data processed successfully!\<close> between two double-quote characters
  (30 characters). The body is not the bare message of 28 characters: line 29 passes the
  message through \<^verbatim>\<open>json.dumps\<close>.
\<close>

theorem success_result_is_serialised_message:
  assumes "lambda_handler U w event ctx = (Inr r, w')"
  shows "getitem r (Key (py ''statusCode'')) = Inr (PInt 200)
       \<and> getitem r (Key (py ''body''))
           = Inr (PStr (json_dumps_str (py ''Data processed successfully!'')))
       \<and> json_dumps_str (py ''Data processed successfully!'')
           = py (CHR 0x22 # ''Data processed successfully!'' @ [CHR 0x22])"
proof -
  from handler_success_inv [OF assms] have "r = success_result" by blast
  then show ?thesis by (simp add: success_result_def dumps_message)
qed

theorem success_result_is_serialised_message_witness:
  "lambda_handler latin_casemap notes_world notes_event ()
     = (Inr success_result, snd (lambda_handler latin_casemap notes_world notes_event ()))
   \<and> getitem success_result (Key (py ''statusCode'')) = Inr (PInt 200)
   \<and> getitem success_result (Key (py ''body''))
       = Inr (PStr (json_dumps_str (py ''Data processed successfully!'')))
   \<and> json_dumps_str (py ''Data processed successfully!'')
       = py (CHR 0x22 # ''Data processed successfully!'' @ [CHR 0x22])"
proof -
  have h: "lambda_handler latin_casemap notes_world notes_event ()
             = (Inr success_result, snd (lambda_handler latin_casemap notes_world notes_event ()))"
    by (simp add: notes_run)
  from success_result_is_serialised_message [OF h] h show ?thesis by simp
qed

theorem body_not_bare_message_counterexample:
  "fst (lambda_handler latin_casemap notes_world notes_event ()) = Inr success_result
   \<and> getitem success_result (Key (py ''body''))
       = Inr (PStr (py (CHR 0x22 # ''Data processed successfully!'' @ [CHR 0x22])))
   \<and> getitem success_result (Key (py ''body''))
       \<noteq> Inr (PStr (py ''Data processed successfully!''))"
  by (simp add: notes_run success_result_def dumps_message)

section \<open>Failures\<close>

text \<open>
  C4: when the notification resolves to a bucket and a key and object storage does
  not deliver the object (\<^verbatim>\<open>get_object\<close> raises, or reading the body raises), the
  handler fails with a storage read error, and it performs no write: the tables are
  unchanged and the only call made is the read.
\<close>

theorem unreadable_object_fails_without_write:
  assumes "getpath event bucket_name_path = Inr b"
    and "getpath event object_key_path = Inr k"
    and "s3_get_object w b k = GetObjectRaises c \<or> s3_get_object w b k = BodyReadRaises c"
  shows "\<exists>e w'. lambda_handler U w event ctx = (Inl e, w')
           \<and> failure_of e = StorageReadError
           \<and> tables w' = tables w
           \<and> filter is_write (calls w') = filter is_write (calls w)
           \<and> calls w' = calls w @ [GetObject b k]"
  unfolding handler_resolved [OF assms(1,2)]
  using assms(3) by auto

theorem unreadable_object_fails_without_write_witness:
  "getpath gone_event bucket_name_path = Inr (PStr (py ''my-bucket''))
   \<and> getpath gone_event object_key_path = Inr (PStr (py ''gone.txt''))
   \<and> (s3_get_object notes_world (PStr (py ''my-bucket'')) (PStr (py ''gone.txt''))
         = GetObjectRaises ''NoSuchKey''
       \<or> s3_get_object notes_world (PStr (py ''my-bucket'')) (PStr (py ''gone.txt''))
         = BodyReadRaises ''NoSuchKey'')
   \<and> (\<exists>e w'. lambda_handler latin_casemap notes_world gone_event () = (Inl e, w')
           \<and> failure_of e = StorageReadError
           \<and> tables w' = tables notes_world
           \<and> filter is_write (calls w') = filter is_write (calls notes_world)
           \<and> calls w' = calls notes_world
                @ [GetObject (PStr (py ''my-bucket'')) (PStr (py ''gone.txt''))])"
proof -
  have h: "s3_get_object notes_world (PStr (py ''my-bucket'')) (PStr (py ''gone.txt''))
             = GetObjectRaises ''NoSuchKey''
         \<or> s3_get_object notes_world (PStr (py ''my-bucket'')) (PStr (py ''gone.txt''))
             = BodyReadRaises ''NoSuchKey''"
    by (simp add: notes_world_def)
  note unreadable_object_fails_without_write [OF gone_event_paths h, of latin_casemap "()"]
  then show ?thesis using gone_event_paths h by (simp only: simp_thms)
qed

text \<open>
  C5: when the lookup of the bucket name or of the object key in the event raises
  (the \<^verbatim>\<open>Records\<close> list, \<^verbatim>\<open>bucket.name\<close> or \<^verbatim>\<open>object.key\<close> is missing), the
  handler fails with a malformed-input error and the world is exactly as before: no
  read, no write, no call to either client.
\<close>

theorem malformed_notification_fails_before_io:
  assumes "isl (getpath event bucket_name_path) \<or> isl (getpath event object_key_path)"
  shows "\<exists>e. lambda_handler U w event ctx = (Inl e, w) \<and> failure_of e = MalformedInput"
proof (cases "getpath event bucket_name_path")
  case (Inl e)
  then show ?thesis by (auto simp: handler_unresolved(1) dest: getpath_error)
next
  case (Inr b)
  with assms obtain e where "getpath event object_key_path = Inl e" by (auto simp: isl_def)
  with Inr show ?thesis by (auto simp: handler_unresolved(2) dest: getpath_error)
qed

theorem malformed_notification_fails_before_io_witness:
  "(isl (getpath keyless_event bucket_name_path) \<or> isl (getpath keyless_event object_key_path))
   \<and> getpath keyless_event object_key_path = Inl KeyError
   \<and> (\<exists>e. lambda_handler latin_casemap notes_world keyless_event () = (Inl e, notes_world)
           \<and> failure_of e = MalformedInput)"
proof -
  have h: "isl (getpath keyless_event bucket_name_path)
         \<or> isl (getpath keyless_event object_key_path)"
    by (simp add: keyless_event_paths)
  from malformed_notification_fails_before_io [OF h, of latin_casemap notes_world "()"] h
    keyless_event_paths(2)
  show ?thesis by (simp only: simp_thms)
qed

text \<open>
  C6: when the bytes read from the object are not valid UTF-8, the handler fails
  with the decode error, and it performs no write: the tables are unchanged and no
  write call is made.
\<close>

theorem undecodable_object_fails_without_write:
  assumes "getpath event bucket_name_path = Inr b"
    and "getpath event object_key_path = Inr k"
    and "s3_get_object w b k = BodyBytes raw"
    and "utf8_decode raw = None"
  shows "\<exists>e w'. lambda_handler U w event ctx = (Inl e, w')
           \<and> e = UnicodeDecodeError \<and> failure_of e = DecodeError
           \<and> tables w' = tables w
           \<and> filter is_write (calls w') = filter is_write (calls w)"
  unfolding handler_resolved [OF assms(1,2)]
  using assms(3,4) by simp

theorem undecodable_object_fails_without_write_witness:
  "getpath notes_event bucket_name_path = Inr (PStr (py ''my-bucket''))
   \<and> getpath notes_event object_key_path = Inr (PStr (py ''notes.txt''))
   \<and> s3_get_object latin1_world (PStr (py ''my-bucket'')) (PStr (py ''notes.txt''))
       = BodyBytes latin1_bytes
   \<and> utf8_decode latin1_bytes = None
   \<and> (\<exists>e w'. lambda_handler latin_casemap latin1_world notes_event () = (Inl e, w')
           \<and> e = UnicodeDecodeError \<and> failure_of e = DecodeError
           \<and> tables w' = tables latin1_world
           \<and> filter is_write (calls w') = filter is_write (calls latin1_world))"
proof -
  have h: "s3_get_object latin1_world (PStr (py ''my-bucket'')) (PStr (py ''notes.txt''))
             = BodyBytes latin1_bytes"
    by (simp add: latin1_world_def)
  note undecodable_object_fails_without_write
         [OF notes_event_bucket notes_event_key h decode_latin1, of latin_casemap "()"]
  then show ?thesis
    using notes_event_bucket notes_event_key h decode_latin1 by (simp only: simp_thms)
qed

section \<open>Two notifications for one key\<close>

text \<open>
  C7, as amended: when the handler is invoked twice with notifications carrying the
  same object key \<open>k\<close> (the object may have been rewritten in between) and the later
  invocation succeeds, the table holds exactly one record with \<^verbatim>\<open>id\<close> \<open>k\<close>, and its
  \<^verbatim>\<open>data\<close> is the uppercased content read by the later invocation; if the first
  invocation succeeded, the table held exactly one record with that \<^verbatim>\<open>id\<close> in
  between. Every invocation keeps the ids of every table unique. Without the success of
  the later invocation the statement fails: in \<open>rewritten_refusing\<close> the later write is
  refused and the record still holds the data of the first invocation.
\<close>

theorem same_key_overwrites:
  assumes "getpath e1 object_key_path = Inr k"
    and "lambda_handler U w e1 c1 = (res1, w1)"
    and "getpath e2 bucket_name_path = Inr b2" and "getpath e2 object_key_path = Inr k"
    and "g b2 k = BodyBytes raw2" and "utf8_decode raw2 = Some s2"
    and "lambda_handler U (w1\<lparr>s3_get_object := g, put_item_fault := f\<rparr>) e2 c2 = (Inr r2, w2)"
  shows "records_with_id k (tables w2 (py ''processed-data''))
           = [PDict [(py ''id'', PDict [(py ''S'', k)]),
                     (py ''data'', PDict [(py ''S'', PStr (uppercase U s2))])]]
       \<and> (isl res1
          \<or> (\<exists>s1. records_with_id k (tables w1 (py ''processed-data''))
                 = [PDict [(py ''id'', PDict [(py ''S'', k)]),
                           (py ''data'', PDict [(py ''S'', PStr (uppercase U s1))])]]))
       \<and> (\<forall>t. id_unique (tables w t) \<longrightarrow> id_unique (tables w1 t) \<and> id_unique (tables w2 t))"
proof (intro conjI allI impI)
  have "records_with_id k (tables w2 (py ''processed-data'')) = [make_item k (uppercase U s2)]"
    using assms(7,3,4) _ assms(6) by (rule handler_success_records) (simp add: assms(5))
  then show "records_with_id k (tables w2 (py ''processed-data''))
           = [PDict [(py ''id'', PDict [(py ''S'', k)]),
                     (py ''data'', PDict [(py ''S'', PStr (uppercase U s2))])]]"
    by (simp add: make_item_def)
  show "isl res1
          \<or> (\<exists>s1. records_with_id k (tables w1 (py ''processed-data''))
                 = [PDict [(py ''id'', PDict [(py ''S'', k)]),
                           (py ''data'', PDict [(py ''S'', PStr (uppercase U s1))])]])"
  proof (cases res1)
    case (Inl e)
    then show ?thesis by simp
  next
    case (Inr r1)
    with assms(2) have run: "lambda_handler U w e1 c1 = (Inr r1, w1)" by simp
    from handler_success_inv [OF run] assms(1) obtain b1 raw1 s1 where
      "getpath e1 bucket_name_path = Inr b1" "s3_get_object w b1 k = BodyBytes raw1"
      "utf8_decode raw1 = Some s1"
      by auto
    with run assms(1)
    have "records_with_id k (tables w1 (py ''processed-data'')) = [make_item k (uppercase U s1)]"
      by (intro handler_success_records)
    then show ?thesis by (auto simp: make_item_def)
  qed
  fix t
  assume u: "id_unique (tables w t)"
  then show u1: "id_unique (tables w1 t)" using assms(2) by (rule handler_keeps_id_unique)
  then have "id_unique (tables (w1\<lparr>s3_get_object := g, put_item_fault := f\<rparr>) t)" by simp
  then show "id_unique (tables w2 t)" using assms(7) by (rule handler_keeps_id_unique)
qed

theorem same_key_overwrites_witness:
  "getpath notes_event object_key_path = Inr (PStr (py ''notes.txt''))
   \<and> lambda_handler latin_casemap notes_world notes_event () = (Inr success_result, after_first)
   \<and> getpath batch_event bucket_name_path = Inr (PStr (py ''my-bucket''))
   \<and> getpath batch_event object_key_path = Inr (PStr (py ''notes.txt''))
   \<and> utf8_decode shout_bytes = Some (py ''bye'')
   \<and> lambda_handler latin_casemap rewritten batch_event () = (Inr success_result, after_second)
   \<and> records_with_id (PStr (py ''notes.txt'')) (tables after_first (py ''processed-data''))
       = [PDict [(py ''id'', PDict [(py ''S'', PStr (py ''notes.txt''))]),
                 (py ''data'', PDict [(py ''S'', PStr (py ''HELLO WORLD''))])]]
   \<and> records_with_id (PStr (py ''notes.txt'')) (tables after_second (py ''processed-data''))
       = [PDict [(py ''id'', PDict [(py ''S'', PStr (py ''notes.txt''))]),
                 (py ''data'', PDict [(py ''S'', PStr (py ''BYE''))])]]
   \<and> id_unique (tables notes_world (py ''processed-data''))
   \<and> id_unique (tables after_first (py ''processed-data''))
   \<and> id_unique (tables after_second (py ''processed-data''))"
proof -
  have h5: "(\<lambda>bucket key. BodyBytes shout_bytes) (PStr (py ''my-bucket'')) (PStr (py ''notes.txt''))
              = BodyBytes shout_bytes"
    by simp
  have u: "id_unique (tables notes_world (py ''processed-data''))"
    by (simp add: notes_world_def id_unique_def)
  note same_key_overwrites
         [OF notes_event_key first_run batch_event_paths h5 decode_shout
             second_run [unfolded rewritten_def]]
  then have "records_with_id (PStr (py ''notes.txt'')) (tables after_second (py ''processed-data''))
       = [PDict [(py ''id'', PDict [(py ''S'', PStr (py ''notes.txt''))]),
                 (py ''data'', PDict [(py ''S'', PStr (py ''BYE''))])]]"
    and "id_unique (tables after_first (py ''processed-data''))
         \<and> id_unique (tables after_second (py ''processed-data''))"
    using u by (simp_all add: upper_shout)
  then show ?thesis
    using notes_event_key first_run batch_event_paths decode_shout second_run u
      after_first_records
    by (simp only: simp_thms)
qed

theorem later_write_refused_counterexample:
  "lambda_handler latin_casemap notes_world notes_event () = (Inr success_result, after_first)
   \<and> getpath notes_event object_key_path = Inr (PStr (py ''notes.txt''))
   \<and> getpath batch_event object_key_path = Inr (PStr (py ''notes.txt''))
   \<and> s3_get_object rewritten_refusing (PStr (py ''my-bucket'')) (PStr (py ''notes.txt''))
       = BodyBytes shout_bytes
   \<and> utf8_decode shout_bytes = Some (py ''bye'')
   \<and> tables rewritten_refusing = tables after_first
   \<and> fst (lambda_handler latin_casemap rewritten_refusing batch_event ())
       = Inl (PutItemFailed ''ProvisionedThroughputExceededException'')
   \<and> records_with_id (PStr (py ''notes.txt''))
        (tables (snd (lambda_handler latin_casemap rewritten_refusing batch_event ()))
           (py ''processed-data''))
       = [PDict [(py ''id'', PDict [(py ''S'', PStr (py ''notes.txt''))]),
                 (py ''data'', PDict [(py ''S'', PStr (py ''HELLO WORLD''))])]]"
  using after_first_records
  by (simp add: first_run notes_event_key batch_event_paths decode_shout refusing_run)
     (simp add: rewritten_refusing_def rewritten_def)

section \<open>What the handler reads and touches\<close>

text \<open>
  C8: only the first record of \<^verbatim>\<open>Records\<close> is consumed. Two events with the same
  \<^verbatim>\<open>event['Records'][0]\<close> (the same value, or the same failure of that lookup) give
  the same result and leave the same world, whatever else they contain.
\<close>

theorem only_first_record_consumed:
  assumes "getpath e1 first_record = getpath e2 first_record"
  shows "lambda_handler U w e1 ctx = lambda_handler U w e2 ctx"
proof -
  from assms have b: "getpath e1 bucket_name_path = getpath e2 bucket_name_path"
    and k: "getpath e1 object_key_path = getpath e2 object_key_path"
    by (simp_all add: bucket_name_path_def object_key_path_def getpath_append)
  show ?thesis unfolding lambda_handler_def b k by (rule refl)
qed

theorem only_first_record_consumed_witness:
  "getpath notes_event first_record = getpath batch_event first_record
   \<and> notes_event \<noteq> batch_event
   \<and> lambda_handler latin_casemap notes_world notes_event ()
       = lambda_handler latin_casemap notes_world batch_event ()"
proof -
  have "notes_event \<noteq> batch_event" by (simp add: notes_event_def batch_event_def)
  with only_first_record_consumed [OF batch_event_first, of latin_casemap notes_world "()"]
    batch_event_first
  show ?thesis by (simp only: simp_thms)
qed

text \<open>
  C9: a successful invocation makes exactly two calls, one read from object storage
  followed by one write to the table \<^verbatim>\<open>processed-data\<close>; every other table is left
  as it was, and nothing else of the world changes.
\<close>

theorem successful_invocation_effects:
  assumes "lambda_handler U w event ctx = (Inr r, w')"
  shows "\<exists>b k item.
           calls w' = calls w @ [GetObject b k, PutItem (py ''processed-data'') item]
         \<and> length (filter is_read (calls w')) = length (filter is_read (calls w)) + 1
         \<and> length (filter is_write (calls w')) = length (filter is_write (calls w)) + 1
         \<and> (\<forall>t. t \<noteq> py ''processed-data'' \<longrightarrow> tables w' t = tables w t)
         \<and> s3_get_object w' = s3_get_object w
         \<and> put_item_fault w' = put_item_fault w"
proof -
  from handler_success_inv [OF assms] obtain b k item rows where
    "w' = w\<lparr>calls := calls w @ [GetObject b k, PutItem (py ''processed-data'') item],
            tables := (tables w)(py ''processed-data'' := rows)\<rparr>"
    by blast
  then show ?thesis by auto
qed

theorem successful_invocation_effects_witness:
  "lambda_handler latin_casemap notes_world notes_event () = (Inr success_result, after_first)
   \<and> (\<exists>b k item.
           calls after_first
             = calls notes_world @ [GetObject b k, PutItem (py ''processed-data'') item]
         \<and> length (filter is_read (calls after_first))
             = length (filter is_read (calls notes_world)) + 1
         \<and> length (filter is_write (calls after_first))
             = length (filter is_write (calls notes_world)) + 1
         \<and> (\<forall>t. t \<noteq> py ''processed-data'' \<longrightarrow> tables after_first t = tables notes_world t)
         \<and> s3_get_object after_first = s3_get_object notes_world
         \<and> put_item_fault after_first = put_item_fault notes_world)"
  using successful_invocation_effects [OF first_run] first_run by (simp only: simp_thms)

text \<open>
  C10: the result of the handler and the world it leaves do not depend on the
  context argument: two invocations on the same event in the same world that differ
  only in the context return the same result and leave the same world.
\<close>

theorem handler_ignores_context:
  "lambda_handler casemap w event (c1 :: 'a) = lambda_handler casemap w event (c2 :: 'b)"
  by (simp add: lambda_handler_def)

end
